theory Spec2Isabelle
  imports Main "HOL-Library.Log_Nat"
begin

section \<open>The ledger API of bss-app\<close>

text \<open>
  The repository holds three variants of one Express application over MongoDB:
  \<^verbatim>\<open>src/blockchain.js\<close> (all five routes, hand-written checks of the request body),
  \<^verbatim>\<open>src/unnamed/part_000\<close> (the same routes behind express-validator chains) and
  \<^verbatim>\<open>src/unnamed/part_001\<close> (balance, send and mine only; its send and mine handlers are
  character for character those of \<^verbatim>\<open>blockchain.js\<close>).

  Modelling decisions, all of them visible in the definitions below:
  \<^item> A collection is the list of its documents in insertion (natural) order. Nothing in the
    source creates a unique index, so the list may hold several documents with one address;
    \<^verbatim>\<open>findOne\<close> and \<^verbatim>\<open>updateOne\<close> both act on the first match.
  \<^item> A field of a request body is \<open>None\<close> when the JSON body lacks it and \<open>Some v\<close>
    otherwise, with \<open>v\<close> of the JSON type the interface gives the field: a string for an
    address, a number for an amount. A body that carries a string, a boolean or an object
    where the interface has a number is outside the model.
  \<^item> A number is a JavaScript number, with the rounding of its arithmetic (next
    subsection).
  \<^item> \<^verbatim>\<open>new Date()\<close> is a clock reading handed to the handler; the \<^verbatim>\<open>_id\<close> that the
    driver adds to an inserted document is left out.
  \<^item> The handlers are modelled behind the API-key middleware. The functions of the
    handlers served alone have no \<^verbatim>\<open>catch\<close> branch (status 500): they describe a request
    none of whose database calls throws. The step model of the last subsection has the
    branch.
\<close>

subsection \<open>Numbers\<close>

text \<open>
  A JavaScript number is an IEEE 754 double: a finite value, which is a rational number,
  or one of \<^verbatim>\<open>Infinity\<close>, \<^verbatim>\<open>-Infinity\<close> and \<^verbatim>\<open>NaN\<close>. \<^verbatim>\<open>JSON.parse\<close> gives finite numbers and,
  for a literal beyond the largest double, an infinity. The two zeros are one value here:
  \<^verbatim>\<open>!x\<close>, \<^verbatim>\<open><\<close> and the sums below do not tell them apart.
\<close>

datatype number = Fin rat | PInf | NInf | NaN

text \<open>
  The double nearest to a rational, ties going to the even significand: the result of
  every sum. A double has 53 significant bits, so in the binade of \<open>x\<close>, from \<open>2^e\<close> up to
  \<open>2^(e+1)\<close>, doubles are \<open>2^(e-52)\<close> apart; below \<open>2^(-1022)\<close> the spacing stays that of the
  smallest binade, and a result of magnitude \<open>2^1024\<close> or more is an infinity.
\<close>

definition pow2 :: "int \<Rightarrow> rat" where
  "pow2 k = (if 0 \<le> k then 2 ^ nat k else 1 / 2 ^ nat (- k))"

text \<open>The binade of a rational other than zero: the \<open>e\<close> with \<open>2^e \<le> |x| < 2^(e+1)\<close>.\<close>

definition ilog2 :: "rat \<Rightarrow> int" where
  "ilog2 x = (if 1 \<le> \<bar>x\<bar> then int (floorlog 2 (nat \<lfloor>\<bar>x\<bar>\<rfloor>)) - 1
              else - int (floorlog 2 (nat (\<lceil>1 / \<bar>x\<bar>\<rceil> - 1))))"

definition round_even :: "rat \<Rightarrow> int" where
  "round_even r = (let f = \<lfloor>r\<rfloor>; d = r - of_int f
                   in if d < 1 / 2 then f else if 1 / 2 < d then f + 1
                      else if even f then f else f + 1)"

definition to_double :: "rat \<Rightarrow> number" where
  "to_double x =
     (if x = 0 then Fin 0
      else (let u = pow2 (max (ilog2 x) (- 1022) - 52);
                r = of_int (round_even (x / u)) * u
            in if 2 ^ 1024 \<le> \<bar>r\<bar> then (if 0 < x then PInf else NInf) else Fin r))"

text \<open>
  The sum of two numbers, in JavaScript and in MongoDB's \<^verbatim>\<open>$inc\<close> on doubles. (The driver
  stores a whole number within 32 bits as a BSON integer, and MongoDB adds integers
  exactly; on whole numbers of magnitude up to \<open>2^53\<close> that is the same sum.)
\<close>

fun num_add :: "number \<Rightarrow> number \<Rightarrow> number" where
  "num_add (Fin x) (Fin y) = to_double (x + y)"
| "num_add NaN y = NaN"
| "num_add x NaN = NaN"
| "num_add PInf NInf = NaN"
| "num_add NInf PInf = NaN"
| "num_add PInf y = PInf"
| "num_add x PInf = PInf"
| "num_add NInf y = NInf"
| "num_add x NInf = NInf"

text \<open>Unary minus, \<^verbatim>\<open>-amount\<close>.\<close>

fun num_neg :: "number \<Rightarrow> number" where
  "num_neg (Fin x) = Fin (- x)"
| "num_neg PInf = NInf"
| "num_neg NInf = PInf"
| "num_neg NaN = NaN"

text \<open>The comparison \<^verbatim>\<open>x < y\<close>: false whenever one side is \<^verbatim>\<open>NaN\<close>.\<close>

fun num_less :: "number \<Rightarrow> number \<Rightarrow> bool" where
  "num_less (Fin x) (Fin y) = (x < y)"
| "num_less NaN y = False"
| "num_less x NaN = False"
| "num_less x NInf = False"
| "num_less NInf y = True"
| "num_less PInf y = False"
| "num_less x PInf = True"

text \<open>
  What a statement about balances needs: the value of a finite number, its magnitude,
  whether it is a whole number, and whether it is at least zero.
\<close>

fun val :: "number \<Rightarrow> rat" where
  "val (Fin x) = x"
| "val n = 0"

fun mag :: "number \<Rightarrow> rat" where
  "mag (Fin x) = \<bar>x\<bar>"
| "mag n = 0"

fun whole :: "number \<Rightarrow> bool" where
  "whole (Fin x) = (of_int \<lfloor>x\<rfloor> = x)"
| "whole n = False"

fun at_least_zero :: "number \<Rightarrow> bool" where
  "at_least_zero (Fin x) = (0 \<le> x)"
| "at_least_zero PInf = True"
| "at_least_zero n = False"

fun finite_at_least_zero :: "number \<Rightarrow> bool" where
  "finite_at_least_zero (Fin x) = (0 \<le> x)"
| "finite_at_least_zero n = False"

subsection \<open>Documents and collections\<close>

type_synonym date = nat

record user =
  address :: string
  balance :: number
  createdAt :: date

record transaction =
  sender :: string
  receiver :: string
  amount :: number
  timestamp :: date

record block =
  miner :: string
  reward :: number
  timestamp :: date

record db =
  users :: "user list"
  transactions :: "transaction list"
  blocks :: "block list"

text \<open>\<^verbatim>\<open>db.collection('users').findOne({ address })\<close>: the first document with that address.\<close>

definition findOne :: "user list \<Rightarrow> string \<Rightarrow> user option" where
  "findOne us a = find (\<lambda>u. address u = a) us"

text \<open>
  \<^verbatim>\<open>db.collection('users').updateOne({ address }, { $inc: { balance: delta } })\<close>: the first
  document with that address gets \<open>delta\<close> added to its balance; without a match the
  collection stays as it is.
\<close>

fun updateOne_inc :: "user list \<Rightarrow> string \<Rightarrow> number \<Rightarrow> user list" where
  "updateOne_inc [] a delta = []"
| "updateOne_inc (u # us) a delta =
     (if address u = a then u\<lparr>balance := num_add (balance u) delta\<rparr> # us
      else u # updateOne_inc us a delta)"

text \<open>\<^verbatim>\<open>insertOne(doc)\<close>: the document goes to the end of the collection.\<close>

definition insertOne :: "'a list \<Rightarrow> 'a \<Rightarrow> 'a list" where
  "insertOne docs doc = docs @ [doc]"

text \<open>
  \<^verbatim>\<open>db.collection('transactions').find({ $or: [{ sender: address }, { receiver: address }] }).toArray()\<close>
\<close>

definition find_transactions :: "transaction list \<Rightarrow> string \<Rightarrow> transaction list" where
  "find_transactions ts a = filter (\<lambda>t. sender t = a \<or> receiver t = a) ts"

subsection \<open>Requests and responses\<close>

record register_body =
  req_address :: "string option"
  req_initialBalance :: "number option"

record send_body =
  req_sender :: "string option"
  req_receiver :: "string option"
  req_amount :: "number option"

record mine_body =
  req_minerAddress :: "string option"

text \<open>
  The JSON documents the handlers send: \<^verbatim>\<open>{ message }\<close> alone, \<^verbatim>\<open>{ errors }\<close> of the
  validator variant (one entry, the field's name, for each validator that failed), and the
  success bodies, whose constant \<^verbatim>\<open>message\<close> is left out.
\<close>

datatype json =
    Message string
  | Errors "string list"
  | Registered user
  | Balance number
  | Sent transaction
  | Mined block
  | Transactions "transaction list"

record response =
  status :: nat
  body :: json

definition reply :: "nat \<Rightarrow> json \<Rightarrow> db \<Rightarrow> response \<times> db" where
  "reply code j d = (\<lparr>status = code, body = j\<rparr>, d)"

text \<open>
  JavaScript's \<^verbatim>\<open>!x\<close> on a body field: a missing field is \<^verbatim>\<open>undefined\<close>, and the empty
  string, the number zero and \<^verbatim>\<open>NaN\<close> are falsy too.
\<close>

definition not_str :: "string option \<Rightarrow> bool" where
  "not_str x = (case x of None \<Rightarrow> True | Some s \<Rightarrow> s = [])"

definition not_num :: "number option \<Rightarrow> bool" where
  "not_num x = (case x of None \<Rightarrow> True | Some n \<Rightarrow> n = Fin 0 \<or> n = NaN)"

text \<open>The value of a field that the guard before has found truthy.\<close>

definition str_of :: "string option \<Rightarrow> string" where
  "str_of x = (case x of None \<Rightarrow> [] | Some s \<Rightarrow> s)"

definition num_of :: "number option \<Rightarrow> number" where
  "num_of x = (case x of None \<Rightarrow> Fin 0 | Some n \<Rightarrow> n)"

subsection \<open>The handlers of \<^verbatim>\<open>blockchain.js\<close>\<close>

text \<open>
  \<^verbatim>\<open>POST /users/register\<close>, lines 39 to 67. The part after the check of the body is
  \<open>register_core\<close>, shared with the validator variant; \<^verbatim>\<open>initialBalance || 0\<close> is 0 for a
  missing field and for a falsy number.
\<close>

definition register_core :: "db \<Rightarrow> string \<Rightarrow> number option \<Rightarrow> date \<Rightarrow> response \<times> db" where
  "register_core d a initialBalance now =
     (case findOne (users d) a of
        Some existingUser \<Rightarrow> reply 400 (Message ''User already exists'') d
      | None \<Rightarrow>
          (let newUser = \<lparr>address = a,
                          balance = (if not_num initialBalance then Fin 0
                                     else num_of initialBalance),
                          createdAt = now\<rparr>
           in reply 201 (Registered newUser) (d\<lparr>users := insertOne (users d) newUser\<rparr>)))"

definition register :: "db \<Rightarrow> register_body \<Rightarrow> date \<Rightarrow> response \<times> db" where
  "register d b now =
     (if not_str (req_address b) \<or> not_num (req_initialBalance b)
      then reply 400 (Message ''Address and initial balance are required'') d
      else register_core d (str_of (req_address b)) (req_initialBalance b) now)"

text \<open>\<^verbatim>\<open>GET /balance/:address\<close>, lines 70 to 80.\<close>

definition get_balance :: "db \<Rightarrow> string \<Rightarrow> response \<times> db" where
  "get_balance d a =
     (case findOne (users d) a of
        None \<Rightarrow> reply 404 (Message ''User not found'') d
      | Some u \<Rightarrow> reply 200 (Balance (balance u)) d)"

text \<open>
  \<^verbatim>\<open>POST /transactions/send\<close>, lines 83 to 119 (and lines 51 to 87 of \<^verbatim>\<open>part_001\<close>).
  The part after the check of the body is \<open>send_core\<close>: the validator variant runs the
  same statements. The unary plus of \<^verbatim>\<open>+amount\<close> is the identity on a number.
\<close>

definition send_core :: "db \<Rightarrow> string \<Rightarrow> string \<Rightarrow> number \<Rightarrow> date \<Rightarrow> response \<times> db" where
  "send_core d s r a now =
     (case (findOne (users d) s, findOne (users d) r) of
        (Some senderUser, Some receiverUser) \<Rightarrow>
          (if num_less (balance senderUser) a
           then reply 400 (Message ''Insufficient balance'') d
           else
             (let us1 = updateOne_inc (users d) s (num_neg a);
                  us2 = updateOne_inc us1 r a;
                  tx = \<lparr>sender = s, receiver = r, amount = a, timestamp = now\<rparr>
              in reply 200 (Sent tx)
                   (d\<lparr>users := us2, transactions := insertOne (transactions d) tx\<rparr>)))
      | _ \<Rightarrow> reply 404 (Message ''Sender or Receiver does not exist'') d)"

definition send :: "db \<Rightarrow> send_body \<Rightarrow> date \<Rightarrow> response \<times> db" where
  "send d b now =
     (if not_str (req_sender b) \<or> not_str (req_receiver b) \<or> not_num (req_amount b)
      then reply 400 (Message ''Invalid request body'') d
      else send_core d (str_of (req_sender b)) (str_of (req_receiver b))
             (num_of (req_amount b)) now)"

text \<open>\<^verbatim>\<open>POST /mine\<close>, lines 122 to 151 (and lines 90 to 119 of \<^verbatim>\<open>part_001\<close>).\<close>

definition mine_core :: "db \<Rightarrow> string \<Rightarrow> date \<Rightarrow> response \<times> db" where
  "mine_core d m now =
     (case findOne (users d) m of
        None \<Rightarrow> reply 404 (Message ''Miner does not exist'') d
      | Some miner_doc \<Rightarrow>
          (let rew = Fin 10;
               us1 = updateOne_inc (users d) m rew;
               blk = \<lparr>miner = m, reward = rew, timestamp = now\<rparr>
           in reply 200 (Mined blk)
                (d\<lparr>users := us1, blocks := insertOne (blocks d) blk\<rparr>)))"

definition mine :: "db \<Rightarrow> mine_body \<Rightarrow> date \<Rightarrow> response \<times> db" where
  "mine d b now =
     (if not_str (req_minerAddress b)
      then reply 400 (Message ''Miner address is required'') d
      else mine_core d (str_of (req_minerAddress b)) now)"

text \<open>\<^verbatim>\<open>GET /transactions/:address\<close>, lines 154 to 175.\<close>

definition get_transactions :: "db \<Rightarrow> string \<Rightarrow> response \<times> db" where
  "get_transactions d a =
     (let found = find_transactions (transactions d) a
      in if length found = 0
         then reply 404 (Message ''No transactions found for this user'') d
         else reply 200 (Transactions found) d)"

subsection \<open>The handlers of \<^verbatim>\<open>part_000\<close>, behind express-validator\<close>

text \<open>
  express-validator is a dependency, not code of this repository. Its validators are
  modelled by what the library does on a field of the interface's type: it validates the
  text of the value, \<^verbatim>\<open>String(value)\<close>, and the text of a missing field and of \<^verbatim>\<open>NaN\<close> is
  empty. \<^verbatim>\<open>isString\<close> asks for a value of type string, \<^verbatim>\<open>notEmpty\<close> for a non-empty text,
  \<^verbatim>\<open>isNumeric\<close> for a text of digits with an optional sign and decimal point, and
  \<^verbatim>\<open>optional\<close> skips the chain of a missing field. Every validator of a chain runs, and
  each one that fails adds an entry to \<^verbatim>\<open>errors.array()\<close>.

  The text of a number is such digits unless JavaScript writes it with an exponent, which
  it does from \<open>10^21\<close> on and below the double nearest to \<open>10^(-6)\<close>, or as \<^verbatim>\<open>Infinity\<close>.
\<close>

fun plain_text :: "number \<Rightarrow> bool" where
  "plain_text (Fin x) =
     (x = 0 \<or> (4722366482869645 / 4722366482869645213696 \<le> \<bar>x\<bar> \<and> \<bar>x\<bar> < 10 ^ 21))"
| "plain_text n = False"

definition isString :: "string \<Rightarrow> string option \<Rightarrow> string list" where
  "isString field x = (case x of None \<Rightarrow> [field] | Some s \<Rightarrow> [])"

definition notEmpty_str :: "string \<Rightarrow> string option \<Rightarrow> string list" where
  "notEmpty_str field x = (case x of None \<Rightarrow> [field] | Some s \<Rightarrow> (if s = [] then [field] else []))"

definition isNumeric :: "string \<Rightarrow> number option \<Rightarrow> string list" where
  "isNumeric field x =
     (case x of None \<Rightarrow> [field] | Some n \<Rightarrow> (if plain_text n then [] else [field]))"

definition notEmpty_num :: "string \<Rightarrow> number option \<Rightarrow> string list" where
  "notEmpty_num field x =
     (case x of None \<Rightarrow> [field] | Some n \<Rightarrow> (if n = NaN then [field] else []))"

definition optional :: "'a option \<Rightarrow> string list \<Rightarrow> string list" where
  "optional x errs = (case x of None \<Rightarrow> [] | Some v \<Rightarrow> errs)"

text \<open>\<^verbatim>\<open>POST /users/register\<close>, lines 42 to 74 of \<^verbatim>\<open>part_000\<close>.\<close>

definition register_v :: "db \<Rightarrow> register_body \<Rightarrow> date \<Rightarrow> response \<times> db" where
  "register_v d b now =
     (let errors = isString ''address'' (req_address b) @ notEmpty_str ''address'' (req_address b)
                   @ optional (req_initialBalance b)
                       (isNumeric ''initialBalance'' (req_initialBalance b))
      in if errors \<noteq> [] then reply 400 (Errors errors) d
         else register_core d (str_of (req_address b)) (req_initialBalance b) now)"

text \<open>\<^verbatim>\<open>POST /transactions/send\<close>, lines 90 to 131 of \<^verbatim>\<open>part_000\<close>.\<close>

definition send_v :: "db \<Rightarrow> send_body \<Rightarrow> date \<Rightarrow> response \<times> db" where
  "send_v d b now =
     (let errors = isString ''sender'' (req_sender b) @ notEmpty_str ''sender'' (req_sender b)
                   @ isString ''receiver'' (req_receiver b)
                   @ notEmpty_str ''receiver'' (req_receiver b)
                   @ isNumeric ''amount'' (req_amount b) @ notEmpty_num ''amount'' (req_amount b)
      in if errors \<noteq> [] then reply 400 (Errors errors) d
         else send_core d (str_of (req_sender b)) (str_of (req_receiver b))
                (num_of (req_amount b)) now)"

text \<open>\<^verbatim>\<open>POST /mine\<close>, lines 134 to 166 of \<^verbatim>\<open>part_000\<close>.\<close>

definition mine_v :: "db \<Rightarrow> mine_body \<Rightarrow> date \<Rightarrow> response \<times> db" where
  "mine_v d b now =
     (let errors = isString ''minerAddress'' (req_minerAddress b)
                   @ notEmpty_str ''minerAddress'' (req_minerAddress b)
      in if errors \<noteq> [] then reply 400 (Errors errors) d
         else mine_core d (str_of (req_minerAddress b)) now)"

text \<open>
  \<^verbatim>\<open>GET /balance/:address\<close> and \<^verbatim>\<open>GET /transactions/user/:address\<close> of \<^verbatim>\<open>part_000\<close>
  (lines 77 to 87 and 169 to 187) have the bodies of \<open>get_balance\<close> and
  \<open>get_transactions\<close>.
\<close>

subsection \<open>Notions of the specification\<close>

text \<open>
  The sum of the balances of all documents of the users collection: the exact sum of their
  values, not a sum computed in doubles.
\<close>

definition total_balance :: "db \<Rightarrow> rat" where
  "total_balance d = sum_list (map (\<lambda>u. val (balance u)) (users d))"

text \<open>The balance \<^verbatim>\<open>GET /balance/:address\<close> reads: that of the first document with the address.\<close>

definition balance_of :: "db \<Rightarrow> string \<Rightarrow> number option" where
  "balance_of d a = map_option balance (findOne (users d) a)"

text \<open>Every document of the users collection has a balance of at least zero.\<close>

definition non_negative :: "db \<Rightarrow> bool" where
  "non_negative d = list_all (\<lambda>u. at_least_zero (balance u)) (users d)"

text \<open>
  Every balance is a whole number whose magnitude leaves room for changes of total
  magnitude \<open>k\<close> below \<open>2^53\<close>, up to where sums of whole numbers are exact in doubles.
\<close>

definition in_range :: "db \<Rightarrow> rat \<Rightarrow> bool" where
  "in_range d k = list_all (\<lambda>u. whole (balance u) \<and> mag (balance u) + k \<le> 2 ^ 53) (users d)"

text \<open>
  Requests served one after the other by one handler, each on the state the one before
  left; the responses come back in the order of the requests.
\<close>

fun serve_all :: "(db \<Rightarrow> 'b \<Rightarrow> date \<Rightarrow> response \<times> db) \<Rightarrow> db \<Rightarrow> ('b \<times> date) list
    \<Rightarrow> response list \<times> db" where
  "serve_all handler d [] = ([], d)"
| "serve_all handler d ((b, now) # reqs) =
     (let (res, d1) = handler d b now;
          (ress, d2) = serve_all handler d1 reqs
      in (res # ress, d2))"

text \<open>
  The amounts of a list of transfer requests are whole numbers; and the room the requests
  need: each amount can change two balances, or one balance twice.
\<close>

definition whole_amounts :: "(send_body \<times> date) list \<Rightarrow> bool" where
  "whole_amounts reqs = list_all (\<lambda>(b, now). whole (num_of (req_amount b))) reqs"

definition moved :: "(send_body \<times> date) list \<Rightarrow> rat" where
  "moved reqs = sum_list (map (\<lambda>(b, now). 2 * mag (num_of (req_amount b))) reqs)"

text \<open>The body of a transfer request with all three fields present.\<close>

definition transfer :: "string \<Rightarrow> string \<Rightarrow> number \<Rightarrow> send_body" where
  "transfer s r a = \<lparr>req_sender = Some s, req_receiver = Some r, req_amount = Some a\<rparr>"

text \<open>
  Databases for the concrete instances. In the first A holds 100, B holds 0 and M holds 5,
  and one earlier transfer, from M to B, is stored. In the second X holds \<open>2^53\<close> and
  Y holds 1; in the third X holds \<open>2^53 + 2\<close>, the next double.
\<close>

definition ledger :: db where
  "ledger = \<lparr>users = [\<lparr>address = ''A'', balance = Fin 100, createdAt = 1\<rparr>,
                      \<lparr>address = ''B'', balance = Fin 0, createdAt = 2\<rparr>,
                      \<lparr>address = ''M'', balance = Fin 5, createdAt = 3\<rparr>],
             transactions = [\<lparr>sender = ''M'', receiver = ''B'', amount = Fin 1, timestamp = 0\<rparr>],
             blocks = []\<rparr>"

definition brim :: db where
  "brim = \<lparr>users = [\<lparr>address = ''X'', balance = Fin 9007199254740992, createdAt = 1\<rparr>,
                    \<lparr>address = ''Y'', balance = Fin 1, createdAt = 2\<rparr>],
           transactions = [], blocks = []\<rparr>"

definition over_brim :: db where
  "over_brim = \<lparr>users = [\<lparr>address = ''X'', balance = Fin 9007199254740994, createdAt = 1\<rparr>],
                transactions = [], blocks = []\<rparr>"

text \<open>
  In the fourth X holds 0.9, that is the double nearest to it, and Y holds 0. The amount
  0.2 of the instances on it is the double \<open>3602879701896397 / 2^54\<close>.
\<close>

definition fractional :: db where
  "fractional = \<lparr>users = [\<lparr>address = ''X'', balance = Fin (8106479329266893 / 9007199254740992),
                              createdAt = 1\<rparr>,
                           \<lparr>address = ''Y'', balance = Fin 0, createdAt = 2\<rparr>],
                 transactions = [], blocks = []\<rparr>"

subsection \<open>Requests in flight\<close>

text \<open>
  Every handler is an \<^verbatim>\<open>async\<close> function: it runs to its next \<^verbatim>\<open>await\<close>, hands one
  operation to the database and goes on when the answer is there. The stretch of code
  between two awaits runs without interruption and touches only the handler's own
  variables, and the database applies one operation on a collection at a time; what can
  come between two operations of one request is an operation of another request. A task
  is what is left of a send or mine handler of \<^verbatim>\<open>blockchain.js\<close> at an await, named by the
  operation it waits for, with the variables the rest of the handler reads. The record of
  a transfer and the block of a mining call are built, \<^verbatim>\<open>new Date()\<close> included, before
  \<^verbatim>\<open>insertOne\<close> is called (lines 105 to 112 and 138 to 144): the task that waits for the
  insertion holds the finished document.
\<close>

datatype task =
    Find_sender string string number
  | Find_receiver string string number "user option"
  | Debit string string number
  | Credit string string number
  | Insert_transaction transaction
  | Find_miner string
  | Reward string
  | Insert_block block
  | Finished response

datatype request = Send send_body | Mine mine_body

text \<open>The handler up to its first await: the check of the body (lines 85 to 91, 124 to 130).\<close>

fun start :: "request \<Rightarrow> task" where
  "start (Send b) =
     (if not_str (req_sender b) \<or> not_str (req_receiver b) \<or> not_num (req_amount b)
      then Finished \<lparr>status = 400, body = Message ''Invalid request body''\<rparr>
      else Find_sender (str_of (req_sender b)) (str_of (req_receiver b)) (num_of (req_amount b)))"
| "start (Mine b) =
     (if not_str (req_minerAddress b)
      then Finished \<lparr>status = 400, body = Message ''Miner address is required''\<rparr>
      else Find_miner (str_of (req_minerAddress b)))"

text \<open>
  One step: the database applies the operation the task waits for, and the handler runs on
  to its next await or to its response. The clock reading is the one \<^verbatim>\<open>new Date()\<close> gives
  in that stretch: the record of a transfer is stamped in the stretch after the credit, the
  block in the stretch after the reward.
\<close>

fun step :: "date \<Rightarrow> task \<Rightarrow> db \<Rightarrow> task \<times> db" where
  "step now (Find_sender s r a) d = (Find_receiver s r a (findOne (users d) s), d)"
| "step now (Find_receiver s r a senderUser) d =
     (case (senderUser, findOne (users d) r) of
        (Some su, Some receiverUser) \<Rightarrow>
          (if num_less (balance su) a
           then (Finished \<lparr>status = 400, body = Message ''Insufficient balance''\<rparr>, d)
           else (Debit s r a, d))
      | _ \<Rightarrow>
          (Finished \<lparr>status = 404, body = Message ''Sender or Receiver does not exist''\<rparr>, d))"
| "step now (Debit s r a) d =
     (Credit s r a, d\<lparr>users := updateOne_inc (users d) s (num_neg a)\<rparr>)"
| "step now (Credit s r a) d =
     (Insert_transaction \<lparr>sender = s, receiver = r, amount = a, timestamp = now\<rparr>,
      d\<lparr>users := updateOne_inc (users d) r a\<rparr>)"
| "step now (Insert_transaction tx) d =
     (Finished \<lparr>status = 200, body = Sent tx\<rparr>,
      d\<lparr>transactions := insertOne (transactions d) tx\<rparr>)"
| "step now (Find_miner m) d =
     (case findOne (users d) m of
        None \<Rightarrow> (Finished \<lparr>status = 404, body = Message ''Miner does not exist''\<rparr>, d)
      | Some miner_doc \<Rightarrow> (Reward m, d))"
| "step now (Reward m) d =
     (Insert_block \<lparr>miner = m, reward = Fin 10, timestamp = now\<rparr>,
      d\<lparr>users := updateOne_inc (users d) m (Fin 10)\<rparr>)"
| "step now (Insert_block blk) d =
     (Finished \<lparr>status = 200, body = Mined blk\<rparr>, d\<lparr>blocks := insertOne (blocks d) blk\<rparr>)"
| "step now (Finished res) d = (Finished res, d)"

text \<open>
  The other way an await ends: the database call throws, the operation is not applied, and
  the \<^verbatim>\<open>catch\<close> branch of the handler (lines 115 to 118, 147 to 150) answers 500. It undoes
  nothing of what the handler has written before.
\<close>

fun thrown :: "task \<Rightarrow> task" where
  "thrown (Finished res) = Finished res"
| "thrown t = Finished \<lparr>status = 500, body = Message ''Internal Server Error''\<rparr>"

text \<open>
  The requests in flight share the database. A schedule names, event by event, the task
  whose pending operation the database applies next, with the clock reading of that
  moment, or the task whose pending operation throws; an event of a task that is not there
  does nothing.
\<close>

datatype event = Applies nat date | Throws nat

fun run :: "event list \<Rightarrow> task list \<times> db \<Rightarrow> task list \<times> db" where
  "run [] cfg = cfg"
| "run (Applies i now # sched) (ts, d) =
     (if i < length ts
      then (let (t, d1) = step now (ts ! i) d in run sched (ts[i := t], d1))
      else run sched (ts, d))"
| "run (Throws i # sched) (ts, d) =
     (if i < length ts then run sched (ts[i := thrown (ts ! i)], d) else run sched (ts, d))"

fun applies :: "event \<Rightarrow> bool" where
  "applies (Applies i now) = True"
| "applies (Throws i) = False"

fun finished :: "task \<Rightarrow> bool" where
  "finished (Finished res) = True"
| "finished t = False"

text \<open>A mining request that was answered with its block.\<close>

fun rewarded :: "task \<Rightarrow> bool" where
  "rewarded (Finished res) = (case body res of Mined blk \<Rightarrow> True | _ \<Rightarrow> False)"
| "rewarded t = False"

text \<open>
  What a task has taken out of the total balance so far: a transfer between its debit and
  its credit holds the amount; a mining request that has credited its reward has put 10 in.
\<close>

fun in_transit :: "task \<Rightarrow> rat" where
  "in_transit (Credit s r a) = val a"
| "in_transit (Insert_block blk) = - 10"
| "in_transit (Finished res) = (case body res of Mined blk \<Rightarrow> - 10 | _ \<Rightarrow> 0)"
| "in_transit t = 0"

text \<open>The total magnitude of the increments a task may still apply.\<close>

fun budget :: "task \<Rightarrow> rat" where
  "budget (Find_sender s r a) = 2 * mag a"
| "budget (Find_receiver s r a senderUser) = 2 * mag a"
| "budget (Debit s r a) = 2 * mag a"
| "budget (Credit s r a) = mag a"
| "budget (Find_miner m) = 10"
| "budget (Reward m) = 10"
| "budget t = 0"

text \<open>
  The addresses a task has found in the users collection and will update, and that the
  amount it moves is a whole number.
\<close>

fun known :: "string list \<Rightarrow> task \<Rightarrow> bool" where
  "known addrs (Find_sender s r a) = whole a"
| "known addrs (Find_receiver s r a senderUser) =
     (whole a \<and> (senderUser = None \<or> s \<in> set addrs))"
| "known addrs (Debit s r a) = (whole a \<and> s \<in> set addrs \<and> r \<in> set addrs)"
| "known addrs (Credit s r a) = (whole a \<and> r \<in> set addrs)"
| "known addrs (Reward m) = (m \<in> set addrs)"
| "known addrs t = True"

text \<open>The same of the requests: whole amounts, and the room they need.\<close>

fun whole_request :: "request \<Rightarrow> bool" where
  "whole_request (Send b) = whole (num_of (req_amount b))"
| "whole_request (Mine b) = True"

fun room :: "request \<Rightarrow> rat" where
  "room (Send b) = 2 * mag (num_of (req_amount b))"
| "room (Mine b) = 10"

section \<open>Properties\<close>

subsection \<open>Sums of numbers\<close>

lemma round_even_of_int: "round_even (of_int k) = k"
  by (simp add: round_even_def)

lemma pow2_pos: "0 < pow2 k"
  by (simp add: pow2_def)

text \<open>A rational that is a whole multiple of the spacing of its binade is a double.\<close>

lemma to_double_multiple:
  assumes "x \<noteq> 0" and "x = of_int k * pow2 (max (ilog2 x) (- 1022) - 52)"
    and "\<bar>x\<bar> < 2 ^ 1024"
  shows "to_double x = Fin x"
proof -
  let ?u = "pow2 (max (ilog2 x) (- 1022) - 52)"
  have u: "?u \<noteq> 0" using pow2_pos[of "max (ilog2 x) (- 1022) - 52"] by simp
  have "x / ?u = of_int k" using assms(2) u by (metis nonzero_mult_div_cancel_right)
  then have "of_int (round_even (x / ?u)) * ?u = x"
    using assms(2) by (simp add: round_even_of_int)
  then show ?thesis using assms(1,3) by (simp add: to_double_def Let_def)
qed

lemma ilog2_of_int:
  assumes "n \<noteq> 0"
  shows "ilog2 (of_int n) = int (floorlog 2 (nat \<bar>n\<bar>)) - 1"
proof -
  have "1 \<le> \<bar>n\<bar>" using assms by arith
  then have "(1 :: rat) \<le> of_int \<bar>n\<bar>" by (metis of_int_1_le_iff)
  then have "1 \<le> \<bar>of_int n :: rat\<bar>" by simp
  then show ?thesis by (simp add: ilog2_def flip: of_int_abs)
qed

text \<open>Whole numbers of magnitude up to \<open>2^53\<close> are doubles: rounding leaves them alone.\<close>

lemma to_double_safe_int:
  assumes "\<bar>n\<bar> \<le> 2 ^ 53"
  shows "to_double (of_int n) = Fin (of_int n)"
proof (cases "n = 0")
  case True
  then show ?thesis by (simp add: to_double_def)
next
  case False
  define m where "m = nat \<bar>n\<bar>"
  define l where "l = floorlog 2 m"
  have m: "0 < m" "int m = \<bar>n\<bar>" using False by (simp_all add: m_def)
  from floorlog_bounds[of m 2] m(1) have b: "2 ^ (l - 1) \<le> m" "m < 2 ^ l"
    by (simp_all add: l_def)
  have l0: "0 < l" using m(1) by (simp add: l_def floorlog_def)
  have m53: "m \<le> 2 ^ 53" using assms m(2) by (metis of_nat_le_iff of_nat_numeral of_nat_power)
  with b(1) have "(2::nat) ^ (l - 1) \<le> 2 ^ 53" by linarith
  then have l54: "l - 1 \<le> 53" by (rule power_le_imp_le_exp[rotated]) simp
  have e: "ilog2 (of_int n) = int l - 1"
    using ilog2_of_int[OF False] by (simp add: l_def m_def)
  have big: "\<bar>of_int n :: rat\<bar> < 2 ^ 1024"
  proof -
    have "\<bar>n\<bar> < 2 ^ 1024" using assms by (rule order_le_less_trans) simp
    then have "(of_int \<bar>n\<bar> :: rat) < of_int (2 ^ 1024)" by (simp only: of_int_less_iff)
    then show ?thesis by simp
  qed
  have nz: "(of_int n :: rat) \<noteq> 0" using False by simp
  show ?thesis
  proof (cases "l - 1 = 53")
    case True
    then have "2 ^ 53 \<le> m" using b(1) by simp
    with m53 have "m = 2 ^ 53" by simp
    then have n: "\<bar>n\<bar> = 2 ^ 53" using m(2) by simp
    then obtain k where k: "n = k * 2"
      by (cases "0 \<le> n") (auto intro: that[of "2 ^ 52"] that[of "- (2 ^ 52)"])
    have "max (ilog2 (of_int n)) (- 1022) - 52 = 1" using e True l0 by simp
    then have "pow2 (max (ilog2 (of_int n)) (- 1022) - 52) = 2" by (simp add: pow2_def)
    then have "(of_int n :: rat) = of_int k * pow2 (max (ilog2 (of_int n)) (- 1022) - 52)"
      using k by simp
    from to_double_multiple[OF nz this big] show ?thesis .
  next
    case False
    with l54 have l53: "l \<le> 53" by simp
    define j where "j = 53 - l"
    have "max (ilog2 (of_int n)) (- 1022) - 52 = - int j" using e l0 l53 by (simp add: j_def)
    then have p: "pow2 (max (ilog2 (of_int n)) (- 1022) - 52) = 1 / 2 ^ j"
      by (simp add: pow2_def)
    have a: "(of_int (n * 2 ^ j) :: rat) = of_int n * 2 ^ j" by simp
    have c: "(of_int n :: rat) * 2 ^ j / 2 ^ j = of_int n" by simp
    have q: "(of_int n :: rat) = of_int (n * 2 ^ j) * (1 / 2 ^ j)"
      unfolding a times_divide_eq_right mult_1_right c ..
    have "(of_int n :: rat) = of_int (n * 2 ^ j) * pow2 (max (ilog2 (of_int n)) (- 1022) - 52)"
      unfolding p by (rule q)
    from to_double_multiple[OF nz this big] show ?thesis .
  qed
qed

lemma to_double_whole:
  assumes "of_int \<lfloor>x\<rfloor> = x" and "\<bar>x\<bar> \<le> 2 ^ 53"
  shows "to_double x = Fin x"
proof -
  have "(of_int \<bar>\<lfloor>x\<rfloor>\<bar> :: rat) \<le> of_int (2 ^ 53)"
    using assms by (metis of_int_abs of_int_numeral of_int_power)
  then have "\<bar>\<lfloor>x\<rfloor>\<bar> \<le> 2 ^ 53" by (simp only: of_int_le_iff)
  from to_double_safe_int[OF this] assms(1) show ?thesis by simp
qed

text \<open>
  The sum of two whole numbers is exact when it stays within \<open>2^53\<close>. One past it is the
  first whole number that is no double: \<open>2^53 + 1\<close> is halfway between the doubles \<open>2^53\<close>
  and \<open>2^53 + 2\<close>, and goes to the even one.
\<close>

lemma num_add_whole:
  assumes "whole a" and "whole b" and "\<bar>val a + val b\<bar> \<le> 2 ^ 53"
  shows "num_add a b = Fin (val a + val b)"
proof -
  obtain x y where xy: "a = Fin x" "b = Fin y"
    using assms(1,2) by (cases a; cases b) simp_all
  with assms have "of_int \<lfloor>x\<rfloor> = x" "of_int \<lfloor>y\<rfloor> = y" by simp_all
  then have "of_int (\<lfloor>x\<rfloor> + \<lfloor>y\<rfloor>) = x + y" by (metis of_int_add)
  then have "of_int \<lfloor>x + y\<rfloor> = x + y" by (metis floor_of_int)
  from to_double_whole[OF this] assms(3) xy show ?thesis by simp
qed

lemma whole_sum: "whole a \<Longrightarrow> whole b \<Longrightarrow> whole (Fin (val a + val b))"
proof -
  assume "whole a" "whole b"
  then obtain x y where xy: "a = Fin x" "b = Fin y" "of_int \<lfloor>x\<rfloor> = x" "of_int \<lfloor>y\<rfloor> = y"
    by (cases a; cases b) simp_all
  then have "of_int (\<lfloor>x\<rfloor> + \<lfloor>y\<rfloor>) = x + y" by (metis of_int_add)
  then have "of_int \<lfloor>x + y\<rfloor> = x + y" by (metis floor_of_int)
  with xy show ?thesis by simp
qed

lemma whole_neg: "whole a \<Longrightarrow> whole (num_neg a)"
proof (cases a)
  case (Fin x)
  assume "whole a"
  with Fin have "of_int \<lfloor>x\<rfloor> = x" by simp
  then have "of_int (- \<lfloor>x\<rfloor>) = - x" by (metis of_int_minus)
  then have "of_int \<lfloor>- x\<rfloor> = - x" by (metis floor_of_int)
  with Fin show ?thesis by simp
qed simp_all

lemma val_neg: "val (num_neg a) = - val a"
  by (cases a) simp_all

lemma mag_neg: "mag (num_neg a) = mag a"
  by (cases a) simp_all

lemma mag_val: "whole a \<Longrightarrow> \<bar>val a\<bar> = mag a"
  by (cases a) simp_all

lemma floor_half_odd: "\<lfloor>9007199254740993 / 2 :: rat\<rfloor> = 4503599627370496"
  by (rule floor_unique) simp_all

lemma to_double_odd: "to_double 9007199254740993 = Fin 9007199254740992"
proof -
  have r: "round_even (9007199254740993 / 2) = 4503599627370496"
    by (simp add: round_even_def floor_half_odd Let_def)
  have i: "ilog2 9007199254740993 = 53"
    by (simp add: ilog2_def compute_floorlog)
  show ?thesis
    by (simp add: to_double_def i pow2_def r Let_def)
qed

text \<open>
  Sums of fractions round too. A rational halfway between two doubles goes to the one with
  the even significand; 0.9 less 0.2 and the result plus 0.2 are both such ties, and the
  second is not 0.9 again.
\<close>

lemma to_double_tie:
  assumes "ilog2 x = e" and "- 1022 \<le> e" and "x / pow2 (e - 52) = of_int f + 1 / 2" and "even f"
    and "x \<noteq> 0" and "\<bar>of_int f * pow2 (e - 52)\<bar> < 2 ^ 1024"
  shows "to_double x = Fin (of_int f * pow2 (e - 52))"
proof -
  have fl: "\<lfloor>of_int f + 1 / 2 :: rat\<rfloor> = f" by (rule floor_unique) simp_all
  have "round_even (x / pow2 (e - 52)) = f"
    using assms(4) by (simp add: assms(3) round_even_def fl Let_def)
  then show ?thesis
    using assms(1,2,5,6) by (simp add: to_double_def Let_def max_def)
qed

lemma ceiling_07: "\<lceil>18014398509481984 / 12610078956637389 :: rat\<rceil> = 2"
  by (rule ceiling_unique) simp_all

lemma ilog2_07: "ilog2 (12610078956637389 / 18014398509481984) = - 1"
  by (simp add: ilog2_def ceiling_07 compute_floorlog)

lemma to_double_07:
  "to_double (12610078956637389 / 18014398509481984) = Fin (3152519739159347 / 4503599627370496)"
  using to_double_tie[OF ilog2_07, of 6305039478318694] by (simp add: pow2_def)

lemma ceiling_09: "\<lceil>18014398509481984 / 16212958658533785 :: rat\<rceil> = 2"
  by (rule ceiling_unique) simp_all

lemma ilog2_09: "ilog2 (16212958658533785 / 18014398509481984) = - 1"
  by (simp add: ilog2_def ceiling_09 compute_floorlog)

lemma to_double_09:
  "to_double (16212958658533785 / 18014398509481984) = Fin (2026619832316723 / 2251799813685248)"
  using to_double_tie[OF ilog2_09, of 8106479329266892] by (simp add: pow2_def)

lemma ceiling_02: "\<lceil>18014398509481984 / 3602879701896397 :: rat\<rceil> = 5"
  by (rule ceiling_unique) simp_all

lemma ilog2_02: "ilog2 (3602879701896397 / 18014398509481984) = - 3"
  by (simp add: ilog2_def ceiling_02 compute_floorlog)

lemma to_double_02:
  "to_double (3602879701896397 / 18014398509481984) = Fin (3602879701896397 / 18014398509481984)"
  by (rule to_double_multiple[where k = 7205759403792794]) (simp_all add: ilog2_02 pow2_def)

lemmas fraction_sums = to_double_07 to_double_09 to_double_02

text \<open>Sums keep the sign: a sum of two numbers that is at least zero rounds to such a number.\<close>

lemma to_double_at_least_zero: "0 \<le> x \<Longrightarrow> at_least_zero (to_double x)"
proof -
  assume x: "0 \<le> x"
  let ?u = "pow2 (max (ilog2 x) (- 1022) - 52)"
  have "0 \<le> x / ?u" using x pow2_pos[of "max (ilog2 x) (- 1022) - 52"] by simp
  then have "0 \<le> \<lfloor>x / ?u\<rfloor>" by simp
  then have "0 \<le> round_even (x / ?u)" by (simp add: round_even_def Let_def)
  then have "0 \<le> (of_int (round_even (x / ?u)) :: rat) * ?u"
    using pow2_pos[of "max (ilog2 x) (- 1022) - 52"] by simp
  then show ?thesis using x by (simp add: to_double_def Let_def)
qed

lemma num_add_at_least_zero:
  "at_least_zero b \<Longrightarrow> finite_at_least_zero a \<Longrightarrow> at_least_zero (num_add b a)"
  by (cases b; cases a) (simp_all add: to_double_at_least_zero)

lemma num_sub_at_least_zero:
  "at_least_zero b \<Longrightarrow> finite_at_least_zero a \<Longrightarrow> \<not> num_less b a \<Longrightarrow>
   at_least_zero (num_add b (num_neg a))"
  by (cases b; cases a) (simp_all add: to_double_at_least_zero)

subsection \<open>The collection operations\<close>

lemma findOne_updateOne_inc:
  "findOne (updateOne_inc us a delta) x =
     (if x = a then map_option (\<lambda>u. u\<lparr>balance := num_add (balance u) delta\<rparr>) (findOne us a)
      else findOne us x)"
  by (induction us) (auto simp: findOne_def)

lemma findOne_updateOne_inc_None:
  "findOne (updateOne_inc us a delta) x = None \<longleftrightarrow> findOne us x = None"
  by (simp add: findOne_updateOne_inc)

lemma findOne_None_iff: "findOne us a = None \<longleftrightarrow> a \<notin> set (map address us)"
  by (induction us) (auto simp: findOne_def)

lemma findOne_Some_address: "findOne us a = Some u \<Longrightarrow> a \<in> address ` set us"
  using findOne_None_iff[of us a] by simp

lemma findOne_Some_mem: "findOne us a = Some u \<Longrightarrow> u \<in> set us \<and> address u = a"
  by (induction us) (auto simp: findOne_def split: if_splits)

lemma addresses_updateOne_inc: "map address (updateOne_inc us a delta) = map address us"
  by (induction us) auto

text \<open>The one document an update changes.\<close>

lemma updateOne_inc_split:
  "findOne us a = Some u \<Longrightarrow>
   \<exists>pre post. us = pre @ u # post \<and> (\<forall>x \<in> set pre. address x \<noteq> a) \<and>
      updateOne_inc us a delta = pre @ u\<lparr>balance := num_add (balance u) delta\<rparr> # post"
proof (induction us)
  case Nil
  then show ?case by (simp add: findOne_def)
next
  case (Cons x us)
  show ?case
  proof (cases "address x = a")
    case True
    with Cons.prems have "x = u" by (simp add: findOne_def)
    with True show ?thesis by (intro exI[of _ "[]"] exI[of _ us]) simp
  next
    case False
    with Cons.prems have "findOne us a = Some u" by (simp add: findOne_def)
    from Cons.IH[OF this] obtain pre post where
      "us = pre @ u # post" "\<forall>x \<in> set pre. address x \<noteq> a"
      "updateOne_inc us a delta = pre @ u\<lparr>balance := num_add (balance u) delta\<rparr> # post"
      by blast
    with False show ?thesis by (intro exI[of _ "x # pre"] exI[of _ post]) simp
  qed
qed

lemma updateOne_inc_at:
  "\<forall>x \<in> set pre. address x \<noteq> a \<Longrightarrow> address u = a \<Longrightarrow>
   updateOne_inc (pre @ u # post) a delta = pre @ u\<lparr>balance := num_add (balance u) delta\<rparr> # post"
  by (induction pre) auto

text \<open>
  An increment by a whole number on balances that are whole numbers with room for it is
  exact: every balance stays a whole number within the range, and the sum of the balances
  changes by the increment.
\<close>

lemma range_updateOne_inc:
  assumes "list_all (\<lambda>u. whole (balance u) \<and> mag (balance u) + (mag delta + k) \<le> 2 ^ 53) us"
    and "whole delta" and "0 \<le> k"
  shows "list_all (\<lambda>u. whole (balance u) \<and> mag (balance u) + k \<le> 2 ^ 53)
           (updateOne_inc us a delta)"
  using assms(1)
proof (induction us)
  case Nil
  then show ?case by simp
next
  case (Cons u us)
  have m: "0 \<le> mag delta" by (cases delta) simp_all
  from Cons.prems have u: "whole (balance u)" "mag (balance u) + (mag delta + k) \<le> 2 ^ 53"
    and rest: "list_all (\<lambda>u. whole (balance u) \<and> mag (balance u) + (mag delta + k) \<le> 2 ^ 53) us"
    by simp_all
  have tri: "\<bar>val (balance u) + val delta\<bar> \<le> mag (balance u) + mag delta"
    using mag_val[OF u(1)] mag_val[OF assms(2)] by linarith
  with u(2) assms(3) have "\<bar>val (balance u) + val delta\<bar> \<le> 2 ^ 53" by linarith
  from num_add_whole[OF u(1) assms(2) this]
  have s: "num_add (balance u) delta = Fin (val (balance u) + val delta)" .
  have w: "whole (num_add (balance u) delta)"
    unfolding s by (rule whole_sum[OF u(1) assms(2)])
  have g: "mag (num_add (balance u) delta) + k \<le> 2 ^ 53"
    unfolding s using tri u(2) by simp
  have rest': "list_all (\<lambda>u. whole (balance u) \<and> mag (balance u) + k \<le> 2 ^ 53) us"
    using rest m by (induction us) auto
  show ?case
  proof (cases "address u = a")
    case True
    with w g rest' show ?thesis by simp
  next
    case False
    have "mag (balance u) + k \<le> 2 ^ 53" using u(2) m by linarith
    with False u(1) Cons.IH[OF rest] show ?thesis by simp
  qed
qed

lemma sum_updateOne_inc:
  assumes "list_all (\<lambda>u. whole (balance u) \<and> mag (balance u) + (mag delta + k) \<le> 2 ^ 53) us"
    and "whole delta" and "0 \<le> k" and "findOne us a \<noteq> None"
  shows "sum_list (map (\<lambda>u. val (balance u)) (updateOne_inc us a delta)) =
         sum_list (map (\<lambda>u. val (balance u)) us) + val delta"
  using assms(1,4)
proof (induction us)
  case Nil
  then show ?case by (simp add: findOne_def)
next
  case (Cons u us)
  show ?case
  proof (cases "address u = a")
    case True
    from Cons.prems(1) have u: "whole (balance u)" "mag (balance u) + (mag delta + k) \<le> 2 ^ 53"
      by simp_all
    have "\<bar>val (balance u) + val delta\<bar> \<le> mag (balance u) + mag delta"
      using mag_val[OF u(1)] mag_val[OF assms(2)] by linarith
    with u(2) assms(3) have "\<bar>val (balance u) + val delta\<bar> \<le> 2 ^ 53" by linarith
    from num_add_whole[OF u(1) assms(2) this] True show ?thesis by simp
  next
    case False
    with Cons.prems have "findOne us a \<noteq> None"
      and "list_all (\<lambda>u. whole (balance u) \<and> mag (balance u) + (mag delta + k) \<le> 2 ^ 53) us"
      by (simp_all add: findOne_def)
    from Cons.IH[OF this(2,1)] False show ?thesis by simp
  qed
qed

lemma range_mono:
  "list_all (\<lambda>u. whole (balance u) \<and> mag (balance u) + k \<le> 2 ^ 53) us \<Longrightarrow> j \<le> k \<Longrightarrow>
   list_all (\<lambda>u. whole (balance u) \<and> mag (balance u) + j \<le> 2 ^ 53) us"
  by (induction us) auto

lemma non_negative_inc:
  "list_all (\<lambda>u. at_least_zero (balance u)) us \<Longrightarrow> finite_at_least_zero delta \<Longrightarrow>
   list_all (\<lambda>u. at_least_zero (balance u)) (updateOne_inc us a delta)"
  by (induction us) (auto simp: num_add_at_least_zero)

lemma non_negative_dec:
  "list_all (\<lambda>u. at_least_zero (balance u)) us \<Longrightarrow> findOne us a = Some u \<Longrightarrow>
   finite_at_least_zero delta \<Longrightarrow> \<not> num_less (balance u) delta \<Longrightarrow>
   list_all (\<lambda>u. at_least_zero (balance u)) (updateOne_inc us a (num_neg delta))"
  by (induction us) (auto simp: findOne_def num_sub_at_least_zero split: if_splits)

lemma str_of_Some: "str_of (Some s) = s"
  by (simp add: str_of_def)

lemma num_of_Some: "num_of (Some n) = n"
  by (simp add: num_of_def)

text \<open>The equations that evaluate a handler on a concrete request.\<close>

lemmas field_defs = not_str_def not_num_def str_of_def num_of_def transfer_def
lemmas validator_defs = isString_def notEmpty_str_def isNumeric_def notEmpty_num_def optional_def
lemmas handler_defs = register_def register_core_def send_def send_core_def mine_def
  mine_core_def get_transactions_def get_balance_def reply_def insertOne_def findOne_def
  find_transactions_def field_defs
lemmas handler_v_defs = register_v_def register_core_def send_v_def send_core_def mine_v_def
  mine_core_def reply_def insertOne_def findOne_def validator_defs field_defs

text \<open>Sums of small whole numbers, for the concrete instances.\<close>

lemma to_double_small: "of_int \<lfloor>x\<rfloor> = x \<Longrightarrow> \<bar>x\<bar> \<le> 9007199254740992 \<Longrightarrow> to_double x = Fin x"
  using to_double_whole[of x] by simp

lemmas small_sums = to_double_small to_double_odd

subsection \<open>The core of a transfer and of a reward\<close>

lemma mag_nonneg: "0 \<le> mag a"
  by (cases a) simp_all

lemma send_core_failed:
  "status (fst (send_core d s r a now)) \<noteq> 200 \<Longrightarrow> snd (send_core d s r a now) = d"
  by (auto simp: send_core_def reply_def Let_def split: option.splits if_splits)

lemma send_core_ok:
  "status (fst (send_core d s r a now)) = 200 \<Longrightarrow>
   findOne (users d) s \<noteq> None \<and> findOne (users d) r \<noteq> None \<and>
   snd (send_core d s r a now) =
     d\<lparr>users := updateOne_inc (updateOne_inc (users d) s (num_neg a)) r a,
       transactions := transactions d @
          [\<lparr>sender = s, receiver = r, amount = a, timestamp = now\<rparr>]\<rparr>"
  by (auto simp: send_core_def reply_def Let_def insertOne_def split: option.splits if_splits)

lemma send_core_exact:
  assumes "in_range d (2 * mag a + k)" and "whole a" and "0 \<le> k"
  shows "in_range (snd (send_core d s r a now)) k \<and>
         (status (fst (send_core d s r a now)) = 200 \<longrightarrow>
            total_balance (snd (send_core d s r a now)) = total_balance d)"
proof (cases "status (fst (send_core d s r a now)) = 200")
  case False
  have "k \<le> 2 * mag a + k" using mag_nonneg[of a] by simp
  with assms(1) have "in_range d k" unfolding in_range_def by (rule range_mono)
  with False show ?thesis by (simp add: send_core_failed)
next
  case True
  let ?us1 = "updateOne_inc (users d) s (num_neg a)"
  let ?us2 = "updateOne_inc ?us1 r a"
  from send_core_ok[OF True] have s: "findOne (users d) s \<noteq> None"
    and r: "findOne (users d) r \<noteq> None"
    and d': "users (snd (send_core d s r a now)) = ?us2" by simp_all
  have h1: "list_all (\<lambda>u. whole (balance u) \<and>
              mag (balance u) + (mag (num_neg a) + (mag a + k)) \<le> 2 ^ 53) (users d)"
    using assms(1) by (simp add: in_range_def mag_neg algebra_simps)
  have k1: "0 \<le> mag a + k" using assms(3) mag_nonneg[of a] by simp
  have r1: "list_all (\<lambda>u. whole (balance u) \<and> mag (balance u) + (mag a + k) \<le> 2 ^ 53) ?us1"
    by (rule range_updateOne_inc[OF h1 whole_neg[OF assms(2)] k1])
  have r2: "list_all (\<lambda>u. whole (balance u) \<and> mag (balance u) + k \<le> 2 ^ 53) ?us2"
    by (rule range_updateOne_inc[OF r1 assms(2,3)])
  have s1: "sum_list (map (\<lambda>u. val (balance u)) ?us1) =
            sum_list (map (\<lambda>u. val (balance u)) (users d)) + val (num_neg a)"
    by (rule sum_updateOne_inc[OF h1 whole_neg[OF assms(2)] k1 s])
  have r': "findOne ?us1 r \<noteq> None" using r by (simp add: findOne_updateOne_inc_None)
  have s2: "sum_list (map (\<lambda>u. val (balance u)) ?us2) =
            sum_list (map (\<lambda>u. val (balance u)) ?us1) + val a"
    by (rule sum_updateOne_inc[OF r1 assms(2,3) r'])
  from r2 s1 s2 d' show ?thesis
    by (simp add: in_range_def total_balance_def val_neg)
qed

lemma mine_core_exact:
  assumes "in_range d 10"
  shows "status (fst (mine_core d m now)) = 200 \<longrightarrow>
         total_balance (snd (mine_core d m now)) = total_balance d + 10"
proof
  assume ok: "status (fst (mine_core d m now)) = 200"
  then have m: "findOne (users d) m \<noteq> None"
    and d': "users (snd (mine_core d m now)) = updateOne_inc (users d) m (Fin 10)"
    by (auto simp: mine_core_def reply_def Let_def split: option.splits)
  have h: "list_all (\<lambda>u. whole (balance u) \<and> mag (balance u) + (mag (Fin 10) + 0) \<le> 2 ^ 53)
             (users d)"
    using assms by (simp add: in_range_def)
  have w: "whole (Fin 10)" by simp
  from sum_updateOne_inc[OF h w order_refl m] d' show
    "total_balance (snd (mine_core d m now)) = total_balance d + 10"
    by (simp add: total_balance_def)
qed

lemma send_core_insufficient:
  "findOne (users d) s = Some su \<Longrightarrow> num_less (balance su) a \<Longrightarrow>
   status (fst (send_core d s r a now)) \<in> {400, 404} \<and> snd (send_core d s r a now) = d"
  by (auto simp: send_core_def reply_def Let_def split: option.splits)

lemma transactions_send_core:
  "status (fst (send_core d s r a now)) = 200 \<Longrightarrow>
   transactions (snd (send_core d s r a now)) =
     transactions d @ [\<lparr>sender = s, receiver = r, amount = a, timestamp = now\<rparr>]"
  by (auto simp: send_core_def reply_def Let_def insertOne_def split: option.splits if_splits)

lemma send_core_non_negative:
  assumes "non_negative d" and "finite_at_least_zero a"
  shows "non_negative (snd (send_core d s r a now))"
proof (cases "status (fst (send_core d s r a now)) = 200")
  case False
  then show ?thesis using assms(1) by (simp add: send_core_failed)
next
  case True
  then obtain su where su: "findOne (users d) s = Some su" "\<not> num_less (balance su) a"
    and d': "users (snd (send_core d s r a now)) =
               updateOne_inc (updateOne_inc (users d) s (num_neg a)) r a"
    by (auto simp: send_core_def reply_def Let_def split: option.splits if_splits)
  from assms su have
    "list_all (\<lambda>u. at_least_zero (balance u)) (updateOne_inc (users d) s (num_neg a))"
    by (intro non_negative_dec[where u = su]) (simp_all add: non_negative_def)
  then show ?thesis using assms(2) d' by (simp add: non_negative_def non_negative_inc)
qed

lemma register_core_non_negative:
  "non_negative d \<Longrightarrow> at_least_zero (num_of ib) \<Longrightarrow>
   non_negative (snd (register_core d a ib now))"
  by (auto simp: register_core_def reply_def Let_def non_negative_def insertOne_def
      split: option.splits)

lemma mine_core_non_negative:
  "non_negative d \<Longrightarrow> non_negative (snd (mine_core d m now))"
  by (auto simp: mine_core_def reply_def Let_def non_negative_def
      intro!: non_negative_inc split: option.splits)

lemma serve_all_Cons:
  "serve_all h d ((b, now) # reqs) =
     (fst (h d b now) # fst (serve_all h (snd (h d b now)) reqs),
      snd (serve_all h (snd (h d b now)) reqs))"
  by (simp split: prod.splits)

lemma moved_nonneg: "0 \<le> moved reqs"
  by (induction reqs) (auto simp: moved_def mag_nonneg)

lemma serve_all_total:
  assumes step: "\<And>d b now k. in_range d (2 * mag (num_of (req_amount b)) + k) \<Longrightarrow>
                   whole (num_of (req_amount b)) \<Longrightarrow> 0 \<le> k \<Longrightarrow>
                   in_range (snd (h d b now)) k \<and>
                   (status (fst (h d b now)) = 200 \<longrightarrow>
                      total_balance (snd (h d b now)) = total_balance d)"
  shows "in_range d (moved reqs) \<Longrightarrow> whole_amounts reqs \<Longrightarrow>
         list_all (\<lambda>res. status res = 200) (fst (serve_all h d reqs)) \<Longrightarrow>
         total_balance (snd (serve_all h d reqs)) = total_balance d"
proof (induction reqs arbitrary: d)
  case Nil
  then show ?case by simp
next
  case (Cons q reqs)
  obtain b now where q: "q = (b, now)" by (cases q)
  from Cons.prems(1) q have r: "in_range d (2 * mag (num_of (req_amount b)) + moved reqs)"
    by (simp add: moved_def)
  from Cons.prems(2) q have w: "whole (num_of (req_amount b))" "whole_amounts reqs"
    by (simp_all add: whole_amounts_def)
  from Cons.prems(3) q have ok: "status (fst (h d b now)) = 200"
    and rest: "list_all (\<lambda>res. status res = 200) (fst (serve_all h (snd (h d b now)) reqs))"
    by (simp_all add: serve_all_Cons del: serve_all.simps)
  from step[OF r w(1) moved_nonneg] ok have
    "in_range (snd (h d b now)) (moved reqs)" "total_balance (snd (h d b now)) = total_balance d"
    by simp_all
  with Cons.IH[OF this(1) w(2) rest] show ?case
    by (simp add: q serve_all_Cons del: serve_all.simps)
qed

lemma send_exact:
  assumes "in_range d (2 * mag (num_of (req_amount b)) + k)" and "whole (num_of (req_amount b))"
    and "0 \<le> k"
  shows "in_range (snd (send d b now)) k \<and>
         (status (fst (send d b now)) = 200 \<longrightarrow> total_balance (snd (send d b now)) = total_balance d)"
proof (cases "not_str (req_sender b) \<or> not_str (req_receiver b) \<or> not_num (req_amount b)")
  case True
  have "k \<le> 2 * mag (num_of (req_amount b)) + k" using mag_nonneg[of "num_of (req_amount b)"] by simp
  with assms(1) have "in_range d k" unfolding in_range_def by (rule range_mono)
  with True show ?thesis by (simp add: send_def reply_def)
next
  case False
  with send_core_exact[OF assms] show ?thesis by (simp add: send_def)
qed

lemma send_v_exact:
  assumes "in_range d (2 * mag (num_of (req_amount b)) + k)" and "whole (num_of (req_amount b))"
    and "0 \<le> k"
  shows "in_range (snd (send_v d b now)) k \<and>
         (status (fst (send_v d b now)) = 200 \<longrightarrow>
            total_balance (snd (send_v d b now)) = total_balance d)"
proof (cases "isString ''sender'' (req_sender b) @ notEmpty_str ''sender'' (req_sender b)
                   @ isString ''receiver'' (req_receiver b)
                   @ notEmpty_str ''receiver'' (req_receiver b)
                   @ isNumeric ''amount'' (req_amount b) @ notEmpty_num ''amount'' (req_amount b) = []")
  case False
  have "k \<le> 2 * mag (num_of (req_amount b)) + k" using mag_nonneg[of "num_of (req_amount b)"] by simp
  with assms(1) have "in_range d k" unfolding in_range_def by (rule range_mono)
  with False show ?thesis by (simp add: send_v_def reply_def Let_def)
next
  case True
  with send_core_exact[OF assms] show ?thesis by (simp add: send_v_def Let_def)
qed

lemma send_insufficient:
  assumes "findOne (users d) s = Some su" "num_less (balance su) a"
  shows "status (fst (send d (transfer s r a) now)) \<in> {400, 404} \<and>
         snd (send d (transfer s r a) now) = d"
  using send_core_insufficient[OF assms, of r now]
  by (simp add: send_def reply_def transfer_def str_of_Some num_of_Some)

lemma send_v_insufficient:
  assumes "findOne (users d) s = Some su" "num_less (balance su) a"
  shows "status (fst (send_v d (transfer s r a) now)) \<in> {400, 404} \<and>
         snd (send_v d (transfer s r a) now) = d"
  using send_core_insufficient[OF assms, of r now]
  by (simp add: send_v_def reply_def transfer_def str_of_Some num_of_Some Let_def)

subsection \<open>Conservation of the total balance\<close>

text \<open>
  C1, as the code has it. The handlers add balances and amounts as JavaScript numbers.
  When every balance is a whole number, every amount is a whole number, and every balance
  has room below \<open>2^53\<close> for twice the magnitudes of the amounts (\<open>in_range d (moved reqs)\<close>),
  transfers served one after the other that all succeed (status 200) leave the sum of all
  balances as it was, with the hand-written checks and with the validators alike. With
  whole balances that have room for 10, a mining call that succeeds raises the sum by
  exactly 10.
\<close>

theorem total_balance_conserved:
  "(in_range d (moved reqs) \<and> whole_amounts reqs \<and>
    list_all (\<lambda>res. status res = 200) (fst (serve_all send d reqs)) \<longrightarrow>
      total_balance (snd (serve_all send d reqs)) = total_balance d) \<and>
   (in_range d (moved reqs) \<and> whole_amounts reqs \<and>
    list_all (\<lambda>res. status res = 200) (fst (serve_all send_v d reqs)) \<longrightarrow>
      total_balance (snd (serve_all send_v d reqs)) = total_balance d) \<and>
   (in_range d 10 \<and> status (fst (mine d b now)) = 200 \<longrightarrow>
      total_balance (snd (mine d b now)) = total_balance d + 10) \<and>
   (in_range d 10 \<and> status (fst (mine_v d b now)) = 200 \<longrightarrow>
      total_balance (snd (mine_v d b now)) = total_balance d + 10)"
proof (intro conjI impI)
  assume "in_range d (moved reqs) \<and> whole_amounts reqs \<and>
    list_all (\<lambda>res. status res = 200) (fst (serve_all send d reqs))"
  then show "total_balance (snd (serve_all send d reqs)) = total_balance d"
    using serve_all_total[where h = send, OF send_exact] by blast
next
  assume "in_range d (moved reqs) \<and> whole_amounts reqs \<and>
    list_all (\<lambda>res. status res = 200) (fst (serve_all send_v d reqs))"
  then show "total_balance (snd (serve_all send_v d reqs)) = total_balance d"
    using serve_all_total[where h = send_v, OF send_v_exact] by blast
next
  assume "in_range d 10 \<and> status (fst (mine d b now)) = 200"
  then show "total_balance (snd (mine d b now)) = total_balance d + 10"
    using mine_core_exact[of d "str_of (req_minerAddress b)" now]
    by (simp add: mine_def reply_def split: if_splits)
next
  assume "in_range d 10 \<and> status (fst (mine_v d b now)) = 200"
  then show "total_balance (snd (mine_v d b now)) = total_balance d + 10"
    using mine_core_exact[of d "str_of (req_minerAddress b)" now]
    by (simp add: mine_v_def reply_def Let_def split: if_splits)
qed

text \<open>
  C1 at a concrete input: A sends 40 to B, B sends 15 back, both with status 200, and the
  sum stays 105; a mining call by M makes it 115.
\<close>

theorem total_balance_conserved_witness:
  "in_range ledger (moved [(transfer ''A'' ''B'' (Fin 40), 4), (transfer ''B'' ''A'' (Fin 15), 5)]) \<and>
   whole_amounts [(transfer ''A'' ''B'' (Fin 40), 4), (transfer ''B'' ''A'' (Fin 15), 5)] \<and>
   list_all (\<lambda>res. status res = 200)
     (fst (serve_all send ledger
        [(transfer ''A'' ''B'' (Fin 40), 4), (transfer ''B'' ''A'' (Fin 15), 5)])) \<and>
   total_balance
     (snd (serve_all send ledger
        [(transfer ''A'' ''B'' (Fin 40), 4), (transfer ''B'' ''A'' (Fin 15), 5)])) = 105 \<and>
   list_all (\<lambda>res. status res = 200)
     (fst (serve_all send_v ledger
        [(transfer ''A'' ''B'' (Fin 40), 4), (transfer ''B'' ''A'' (Fin 15), 5)])) \<and>
   total_balance
     (snd (serve_all send_v ledger
        [(transfer ''A'' ''B'' (Fin 40), 4), (transfer ''B'' ''A'' (Fin 15), 5)])) = 105 \<and>
   in_range ledger 10 \<and>
   status (fst (mine ledger \<lparr>req_minerAddress = Some ''M''\<rparr> 6)) = 200 \<and>
   total_balance (snd (mine ledger \<lparr>req_minerAddress = Some ''M''\<rparr> 6)) = 115 \<and>
   status (fst (mine_v ledger \<lparr>req_minerAddress = Some ''M''\<rparr> 6)) = 200 \<and>
   total_balance (snd (mine_v ledger \<lparr>req_minerAddress = Some ''M''\<rparr> 6)) = 115"
proof -
  have total: "total_balance ledger = 105"
    by (simp add: ledger_def total_balance_def)
  have r: "in_range ledger (moved [(transfer ''A'' ''B'' (Fin 40), 4), (transfer ''B'' ''A'' (Fin 15), 5)])"
    "in_range ledger 10"
    by (simp_all add: in_range_def moved_def ledger_def field_defs)
  have w: "whole_amounts [(transfer ''A'' ''B'' (Fin 40), 4), (transfer ''B'' ''A'' (Fin 15), 5)]"
    by (simp add: whole_amounts_def field_defs)
  have s: "list_all (\<lambda>res. status res = 200)
     (fst (serve_all send ledger
        [(transfer ''A'' ''B'' (Fin 40), 4), (transfer ''B'' ''A'' (Fin 15), 5)]))"
    by (simp add: ledger_def handler_defs small_sums Let_def)
  have v: "list_all (\<lambda>res. status res = 200)
     (fst (serve_all send_v ledger
        [(transfer ''A'' ''B'' (Fin 40), 4), (transfer ''B'' ''A'' (Fin 15), 5)]))"
    by (simp add: ledger_def handler_v_defs small_sums Let_def)
  have m: "status (fst (mine ledger \<lparr>req_minerAddress = Some ''M''\<rparr> 6)) = 200"
    by (simp add: ledger_def handler_defs Let_def)
  have mv: "status (fst (mine_v ledger \<lparr>req_minerAddress = Some ''M''\<rparr> 6)) = 200"
    by (simp add: ledger_def handler_v_defs Let_def)
  show ?thesis
    using total_balance_conserved
      [of ledger "[(transfer ''A'' ''B'' (Fin 40), 4), (transfer ''B'' ''A'' (Fin 15), 5)]"
        "\<lparr>req_minerAddress = Some ''M''\<rparr>" 6]
      total r w s v m mv
    by simp
qed

text \<open>
  C1 as stated fails. X registers with \<open>2^53\<close> and Y with 1, and Y sends 1 to X. The answer
  is 200 and Y holds 0, but the exact new balance of X, \<open>2^53 + 1\<close>, is no double: X still
  holds \<open>2^53\<close>. The sum of the balances has gone from \<open>2^53 + 1\<close> to \<open>2^53\<close>. Fractions
  do the same at any magnitude: X holds 0.9 and sends 0.2 to Y, which holds 0; the answer
  is 200, and the two balances then sum to \<open>2^(-54)\<close> less than 0.9.
\<close>

theorem rounded_transfer_counterexample:
  "snd (register
     (snd (register \<lparr>users = [], transactions = [], blocks = []\<rparr>
        \<lparr>req_address = Some ''X'', req_initialBalance = Some (Fin 9007199254740992)\<rparr> 1))
     \<lparr>req_address = Some ''Y'', req_initialBalance = Some (Fin 1)\<rparr> 2) = brim \<and>
   total_balance brim = 9007199254740993 \<and>
   send brim (transfer ''Y'' ''X'' (Fin 1)) 3 =
     (\<lparr>status = 200,
       body = Sent \<lparr>sender = ''Y'', receiver = ''X'', amount = Fin 1, timestamp = 3\<rparr>\<rparr>,
      \<lparr>users = [\<lparr>address = ''X'', balance = Fin 9007199254740992, createdAt = 1\<rparr>,
                \<lparr>address = ''Y'', balance = Fin 0, createdAt = 2\<rparr>],
       transactions = [\<lparr>sender = ''Y'', receiver = ''X'', amount = Fin 1, timestamp = 3\<rparr>],
       blocks = []\<rparr>) \<and>
   total_balance (snd (send brim (transfer ''Y'' ''X'' (Fin 1)) 3)) = 9007199254740992 \<and>
   send fractional (transfer ''X'' ''Y'' (Fin (3602879701896397 / 18014398509481984))) 3 =
     (\<lparr>status = 200,
       body = Sent \<lparr>sender = ''X'', receiver = ''Y'',
                    amount = Fin (3602879701896397 / 18014398509481984), timestamp = 3\<rparr>\<rparr>,
      \<lparr>users = [\<lparr>address = ''X'', balance = Fin (3152519739159347 / 4503599627370496),
                  createdAt = 1\<rparr>,
                \<lparr>address = ''Y'', balance = Fin (3602879701896397 / 18014398509481984),
                  createdAt = 2\<rparr>],
       transactions = [\<lparr>sender = ''X'', receiver = ''Y'',
                        amount = Fin (3602879701896397 / 18014398509481984), timestamp = 3\<rparr>],
       blocks = []\<rparr>) \<and>
   total_balance fractional = 16212958658533786 / 18014398509481984 \<and>
   total_balance
     (snd (send fractional (transfer ''X'' ''Y'' (Fin (3602879701896397 / 18014398509481984))) 3)) =
     16212958658533785 / 18014398509481984"
  by (simp add: brim_def fractional_def handler_defs small_sums fraction_sums total_balance_def
      Let_def)

subsection \<open>A transfer that fails\<close>

text \<open>
  C2. A transfer request answered with any status other than 200 (400 for the body or for
  an insufficient balance, 404 for a missing account) leaves the whole database as it was:
  every balance, and the transactions collection. In particular a request for more than
  the sender's balance is answered with 400 or 404 and changes nothing.
\<close>

theorem failed_transfer_changes_nothing:
  "(status (fst (send d b now)) \<noteq> 200 \<longrightarrow> snd (send d b now) = d) \<and>
   (status (fst (send_v d b now)) \<noteq> 200 \<longrightarrow> snd (send_v d b now) = d) \<and>
   (findOne (users d) s = Some su \<and> num_less (balance su) a \<longrightarrow>
      status (fst (send d (transfer s r a) now)) \<in> {400, 404} \<and>
      snd (send d (transfer s r a) now) = d \<and>
      status (fst (send_v d (transfer s r a) now)) \<in> {400, 404} \<and>
      snd (send_v d (transfer s r a) now) = d)"
proof (intro conjI impI)
  assume "status (fst (send d b now)) \<noteq> 200"
  then show "snd (send d b now) = d"
    by (auto simp: send_def reply_def send_core_failed split: if_splits)
next
  assume "status (fst (send_v d b now)) \<noteq> 200"
  then show "snd (send_v d b now) = d"
    by (auto simp: send_v_def reply_def send_core_failed Let_def split: if_splits)
qed (use send_insufficient send_v_insufficient in blast)+

text \<open>
  C2 at a concrete input: A holds 100 and asks to send 500 to B; the answer is 400 and the
  database is the one before.
\<close>

theorem failed_transfer_changes_nothing_witness:
  "status (fst (send ledger (transfer ''A'' ''B'' (Fin 500)) 4)) \<noteq> 200 \<and>
   status (fst (send_v ledger (transfer ''A'' ''B'' (Fin 500)) 4)) \<noteq> 200 \<and>
   findOne (users ledger) ''A'' = Some \<lparr>address = ''A'', balance = Fin 100, createdAt = 1\<rparr> \<and>
   num_less (balance \<lparr>address = ''A'', balance = Fin 100, createdAt = 1\<rparr>) (Fin 500) \<and>
   status (fst (send ledger (transfer ''A'' ''B'' (Fin 500)) 4)) \<in> {400, 404} \<and>
   snd (send ledger (transfer ''A'' ''B'' (Fin 500)) 4) = ledger \<and>
   status (fst (send_v ledger (transfer ''A'' ''B'' (Fin 500)) 4)) \<in> {400, 404} \<and>
   snd (send_v ledger (transfer ''A'' ''B'' (Fin 500)) 4) = ledger"
proof -
  have h1: "status (fst (send ledger (transfer ''A'' ''B'' (Fin 500)) 4)) \<noteq> 200"
    by (simp add: ledger_def handler_defs Let_def)
  have h2: "status (fst (send_v ledger (transfer ''A'' ''B'' (Fin 500)) 4)) \<noteq> 200"
    by (simp add: ledger_def handler_v_defs Let_def)
  have h3: "findOne (users ledger) ''A'' = Some \<lparr>address = ''A'', balance = Fin 100, createdAt = 1\<rparr>"
    by (simp add: ledger_def findOne_def)
  show ?thesis
    using failed_transfer_changes_nothing
      [of ledger "transfer ''A'' ''B'' (Fin 500)" 4 "''A''"
        "\<lparr>address = ''A'', balance = Fin 100, createdAt = 1\<rparr>" "Fin 500" "''B''"]
      h1 h2 h3
    by simp
qed

subsection \<open>A transfer and a reward that succeed\<close>

text \<open>
  C6. A holds 100, B holds 0, and A sends 40 to B: the answer is 200 with the transaction
  record, A then holds 60 and B holds 40, and the transactions collection has grown by
  exactly that record. The addresses are two different non-empty strings, as registration
  makes them.
\<close>

theorem transfer_40_of_100:
  assumes "s \<noteq> []" and "r \<noteq> []" and "s \<noteq> r"
    and "balance_of d s = Some (Fin 100)" and "balance_of d r = Some (Fin 0)"
  shows "send d (transfer s r (Fin 40)) now =
           (\<lparr>status = 200,
             body = Sent \<lparr>sender = s, receiver = r, amount = Fin 40, timestamp = now\<rparr>\<rparr>,
            d\<lparr>users := updateOne_inc (updateOne_inc (users d) s (Fin (- 40))) r (Fin 40),
              transactions := transactions d @
                 [\<lparr>sender = s, receiver = r, amount = Fin 40, timestamp = now\<rparr>]\<rparr>) \<and>
         balance_of (snd (send d (transfer s r (Fin 40)) now)) s = Some (Fin 60) \<and>
         balance_of (snd (send d (transfer s r (Fin 40)) now)) r = Some (Fin 40) \<and>
         send_v d (transfer s r (Fin 40)) now = send d (transfer s r (Fin 40)) now"
  using assms
  by (auto simp: send_def send_v_def send_core_def reply_def Let_def balance_of_def insertOne_def
      field_defs validator_defs findOne_updateOne_inc small_sums)

text \<open>C6 on the database where A holds 100 and B holds 0.\<close>

theorem transfer_40_of_100_witness:
  "''A'' \<noteq> [] \<and> ''B'' \<noteq> [] \<and> ''A'' \<noteq> ''B'' \<and>
   balance_of ledger ''A'' = Some (Fin 100) \<and> balance_of ledger ''B'' = Some (Fin 0) \<and>
   send ledger (transfer ''A'' ''B'' (Fin 40)) 4 =
     (\<lparr>status = 200,
       body = Sent \<lparr>sender = ''A'', receiver = ''B'', amount = Fin 40, timestamp = 4\<rparr>\<rparr>,
      \<lparr>users = [\<lparr>address = ''A'', balance = Fin 60, createdAt = 1\<rparr>,
                \<lparr>address = ''B'', balance = Fin 40, createdAt = 2\<rparr>,
                \<lparr>address = ''M'', balance = Fin 5, createdAt = 3\<rparr>],
       transactions = [\<lparr>sender = ''M'', receiver = ''B'', amount = Fin 1, timestamp = 0\<rparr>,
                       \<lparr>sender = ''A'', receiver = ''B'', amount = Fin 40, timestamp = 4\<rparr>],
       blocks = []\<rparr>) \<and>
   balance_of (snd (send ledger (transfer ''A'' ''B'' (Fin 40)) 4)) ''A'' = Some (Fin 60) \<and>
   balance_of (snd (send ledger (transfer ''A'' ''B'' (Fin 40)) 4)) ''B'' = Some (Fin 40)"
proof -
  have h: "''A'' \<noteq> []" "''B'' \<noteq> []" "''A'' \<noteq> ''B''"
    "balance_of ledger ''A'' = Some (Fin 100)" "balance_of ledger ''B'' = Some (Fin 0)"
    by (simp_all add: balance_of_def findOne_def ledger_def)
  have run: "send ledger (transfer ''A'' ''B'' (Fin 40)) 4 =
     (\<lparr>status = 200,
       body = Sent \<lparr>sender = ''A'', receiver = ''B'', amount = Fin 40, timestamp = 4\<rparr>\<rparr>,
      \<lparr>users = [\<lparr>address = ''A'', balance = Fin 60, createdAt = 1\<rparr>,
                \<lparr>address = ''B'', balance = Fin 40, createdAt = 2\<rparr>,
                \<lparr>address = ''M'', balance = Fin 5, createdAt = 3\<rparr>],
       transactions = [\<lparr>sender = ''M'', receiver = ''B'', amount = Fin 1, timestamp = 0\<rparr>,
                       \<lparr>sender = ''A'', receiver = ''B'', amount = Fin 40, timestamp = 4\<rparr>],
       blocks = []\<rparr>)"
    by (simp add: ledger_def handler_defs small_sums Let_def)
  from transfer_40_of_100[OF h, of 4]
  have "balance_of (snd (send ledger (transfer ''A'' ''B'' (Fin 40)) 4)) ''A'' = Some (Fin 60)"
    and "balance_of (snd (send ledger (transfer ''A'' ''B'' (Fin 40)) 4)) ''B'' = Some (Fin 40)"
    by blast+
  with h run show ?thesis by simp
qed

text \<open>
  C7. M holds 5 and mines: the answer is 200 with the block record, whose reward is the
  constant 10; the one document that changes is the first one with M's address, whose
  balance becomes 15, every other document of the users collection staying as it was; and
  the blocks collection has grown by exactly that record.
\<close>

theorem reward_of_10_on_5:
  assumes "m \<noteq> []" and "findOne (users d) m = Some u" and "balance u = Fin 5"
  shows "\<exists>pre post. users d = pre @ u # post \<and>
           mine d \<lparr>req_minerAddress = Some m\<rparr> now =
             (\<lparr>status = 200, body = Mined \<lparr>miner = m, reward = Fin 10, timestamp = now\<rparr>\<rparr>,
              d\<lparr>users := pre @ u\<lparr>balance := Fin 15\<rparr> # post,
                blocks := blocks d @ [\<lparr>miner = m, reward = Fin 10, timestamp = now\<rparr>]\<rparr>) \<and>
           mine_v d \<lparr>req_minerAddress = Some m\<rparr> now = mine d \<lparr>req_minerAddress = Some m\<rparr> now \<and>
           balance_of (snd (mine d \<lparr>req_minerAddress = Some m\<rparr> now)) m = Some (Fin 15)"
proof -
  from updateOne_inc_split[OF assms(2), of "Fin 10"] obtain pre post where
    us: "users d = pre @ u # post"
    and up: "updateOne_inc (users d) m (Fin 10) =
               pre @ u\<lparr>balance := num_add (balance u) (Fin 10)\<rparr> # post"
    by blast
  have s: "num_add (balance u) (Fin 10) = Fin 15"
    using assms(3) by (simp add: small_sums)
  have "mine d \<lparr>req_minerAddress = Some m\<rparr> now =
          (\<lparr>status = 200, body = Mined \<lparr>miner = m, reward = Fin 10, timestamp = now\<rparr>\<rparr>,
           d\<lparr>users := pre @ u\<lparr>balance := Fin 15\<rparr> # post,
             blocks := blocks d @ [\<lparr>miner = m, reward = Fin 10, timestamp = now\<rparr>]\<rparr>)"
    using assms(1,2) up s
    by (simp add: mine_def mine_core_def reply_def Let_def insertOne_def field_defs)
  moreover have "mine_v d \<lparr>req_minerAddress = Some m\<rparr> now =
                 mine d \<lparr>req_minerAddress = Some m\<rparr> now"
    using assms(1) by (simp add: mine_def mine_v_def field_defs validator_defs)
  moreover have "balance_of (snd (mine d \<lparr>req_minerAddress = Some m\<rparr> now)) m = Some (Fin 15)"
    using assms(1,2) s
    by (simp add: mine_def mine_core_def reply_def Let_def field_defs
        balance_of_def findOne_updateOne_inc)
  ultimately show ?thesis using us by blast
qed

text \<open>C7 on the database where M holds 5.\<close>

theorem reward_of_10_on_5_witness:
  "''M'' \<noteq> [] \<and>
   findOne (users ledger) ''M'' = Some \<lparr>address = ''M'', balance = Fin 5, createdAt = 3\<rparr> \<and>
   balance \<lparr>address = ''M'', balance = Fin 5, createdAt = 3\<rparr> = Fin 5 \<and>
   balance_of (snd (mine ledger \<lparr>req_minerAddress = Some ''M''\<rparr> 4)) ''M'' = Some (Fin 15) \<and>
   mine ledger \<lparr>req_minerAddress = Some ''M''\<rparr> 4 =
     (\<lparr>status = 200, body = Mined \<lparr>miner = ''M'', reward = Fin 10, timestamp = 4\<rparr>\<rparr>,
      \<lparr>users = [\<lparr>address = ''A'', balance = Fin 100, createdAt = 1\<rparr>,
                \<lparr>address = ''B'', balance = Fin 0, createdAt = 2\<rparr>,
                \<lparr>address = ''M'', balance = Fin 15, createdAt = 3\<rparr>],
       transactions = [\<lparr>sender = ''M'', receiver = ''B'', amount = Fin 1, timestamp = 0\<rparr>],
       blocks = [\<lparr>miner = ''M'', reward = Fin 10, timestamp = 4\<rparr>]\<rparr>)"
proof -
  have h: "''M'' \<noteq> []"
    "findOne (users ledger) ''M'' = Some \<lparr>address = ''M'', balance = Fin 5, createdAt = 3\<rparr>"
    "balance \<lparr>address = ''M'', balance = Fin 5, createdAt = 3\<rparr> = Fin 5"
    by (simp_all add: findOne_def ledger_def)
  have run: "mine ledger \<lparr>req_minerAddress = Some ''M''\<rparr> 4 =
     (\<lparr>status = 200, body = Mined \<lparr>miner = ''M'', reward = Fin 10, timestamp = 4\<rparr>\<rparr>,
      \<lparr>users = [\<lparr>address = ''A'', balance = Fin 100, createdAt = 1\<rparr>,
                \<lparr>address = ''B'', balance = Fin 0, createdAt = 2\<rparr>,
                \<lparr>address = ''M'', balance = Fin 15, createdAt = 3\<rparr>],
       transactions = [\<lparr>sender = ''M'', receiver = ''B'', amount = Fin 1, timestamp = 0\<rparr>],
       blocks = [\<lparr>miner = ''M'', reward = Fin 10, timestamp = 4\<rparr>]\<rparr>)"
    by (simp add: ledger_def handler_defs small_sums Let_def)
  from reward_of_10_on_5[OF h, of 4]
  have "balance_of (snd (mine ledger \<lparr>req_minerAddress = Some ''M''\<rparr> 4)) ''M'' = Some (Fin 15)"
    by blast
  with h run show ?thesis by simp
qed

text \<open>
  C10, as the code has it. An account with a non-empty address a, as registration makes
  them, sends itself a positive amount that its balance covers. The handler subtracts the
  amount and adds it again, in two sums of JavaScript numbers. When balance and amount are
  whole numbers and the balance is at most \<open>2^53\<close>, both sums are exact: the answer is 200
  with the record, the users collection is document for document the one before, and the
  transactions collection has grown by exactly the record from a to a.
\<close>

theorem transfer_to_self:
  assumes "a \<noteq> []" and "findOne (users d) a = Some u" and "balance u = Fin b"
    and "whole (Fin b)" and "whole (Fin n)" and "0 < n" and "n \<le> b" and "b \<le> 2 ^ 53"
  shows "send d (transfer a a (Fin n)) now =
           (\<lparr>status = 200,
             body = Sent \<lparr>sender = a, receiver = a, amount = Fin n, timestamp = now\<rparr>\<rparr>,
            d\<lparr>transactions := transactions d @
                 [\<lparr>sender = a, receiver = a, amount = Fin n, timestamp = now\<rparr>]\<rparr>) \<and>
         send_v d (transfer a a (Fin n)) now = send d (transfer a a (Fin n)) now"
proof -
  from updateOne_inc_split[OF assms(2), of "Fin (- n)"] obtain pre post where
    us: "users d = pre @ u # post" and pre: "\<forall>x \<in> set pre. address x \<noteq> a"
    and up: "updateOne_inc (users d) a (Fin (- n)) =
               pre @ u\<lparr>balance := num_add (balance u) (Fin (- n))\<rparr> # post"
    by blast
  have au: "address u = a" using findOne_Some_mem[OF assms(2)] by simp
  have wn: "whole (Fin (- n))" using whole_neg[OF assms(5)] by simp
  have "\<bar>b + - n\<bar> \<le> 2 ^ 53" using assms(6,7,8) by simp
  then have s1: "num_add (balance u) (Fin (- n)) = Fin (b - n)"
    using num_add_whole[OF assms(4) wn] assms(3) by simp
  have wd: "whole (Fin (b - n))" using whole_sum[OF assms(4) wn] by simp
  have "\<bar>b - n + n\<bar> \<le> 2 ^ 53" using assms(6,7,8) by simp
  then have s2: "num_add (Fin (b - n)) (Fin n) = Fin b"
    using num_add_whole[OF wd assms(5)] by simp
  have "updateOne_inc (pre @ u\<lparr>balance := Fin (b - n)\<rparr> # post) a (Fin n) =
          pre @ u\<lparr>balance := Fin b\<rparr> # post"
    using updateOne_inc_at[OF pre, of "u\<lparr>balance := Fin (b - n)\<rparr>" post "Fin n"] au s2
    by simp
  then have restored: "updateOne_inc (updateOne_inc (users d) a (Fin (- n))) a (Fin n) = users d"
    using up s1 us assms(3) by simp
  have nl: "\<not> num_less (balance u) (Fin n)" using assms(3,7) by simp
  have nz: "Fin n \<noteq> Fin 0" using assms(6) by simp
  have "send d (transfer a a (Fin n)) now =
           (\<lparr>status = 200,
             body = Sent \<lparr>sender = a, receiver = a, amount = Fin n, timestamp = now\<rparr>\<rparr>,
            d\<lparr>transactions := transactions d @
                 [\<lparr>sender = a, receiver = a, amount = Fin n, timestamp = now\<rparr>]\<rparr>)"
    using assms(1,2) nl nz restored
    by (simp add: send_def send_core_def reply_def Let_def insertOne_def field_defs)
  moreover have "send_v d (transfer a a (Fin n)) now = send d (transfer a a (Fin n)) now"
  proof -
    have "of_int \<lfloor>n\<rfloor> = n" using assms(5) by simp
    moreover have "0 < \<lfloor>n\<rfloor>" using assms(6) calculation by (metis of_int_0_less_iff)
    ultimately have "1 \<le> n" by (metis int_one_le_iff_zero_less of_int_1_le_iff)
    moreover have "n < 10 ^ 21" using assms(7,8) by simp
    ultimately have "plain_text (Fin n)" by simp
    then show ?thesis
      using assms(1) nz by (simp add: send_def send_v_def field_defs validator_defs)
  qed
  ultimately show ?thesis by simp
qed

text \<open>C10 at a concrete input: A, holding 100, sends itself 100.\<close>

theorem transfer_to_self_witness:
  "''A'' \<noteq> [] \<and>
   findOne (users ledger) ''A'' = Some \<lparr>address = ''A'', balance = Fin 100, createdAt = 1\<rparr> \<and>
   balance \<lparr>address = ''A'', balance = Fin 100, createdAt = 1\<rparr> = Fin 100 \<and>
   whole (Fin 100) \<and> (0 :: rat) < 100 \<and> (100 :: rat) \<le> 100 \<and> (100 :: rat) \<le> 2 ^ 53 \<and>
   send ledger (transfer ''A'' ''A'' (Fin 100)) 4 =
     (\<lparr>status = 200,
       body = Sent \<lparr>sender = ''A'', receiver = ''A'', amount = Fin 100, timestamp = 4\<rparr>\<rparr>,
      ledger\<lparr>transactions :=
         [\<lparr>sender = ''M'', receiver = ''B'', amount = Fin 1, timestamp = 0\<rparr>,
          \<lparr>sender = ''A'', receiver = ''A'', amount = Fin 100, timestamp = 4\<rparr>]\<rparr>) \<and>
   send_v ledger (transfer ''A'' ''A'' (Fin 100)) 4 = send ledger (transfer ''A'' ''A'' (Fin 100)) 4"
proof -
  have h: "''A'' \<noteq> []"
    "findOne (users ledger) ''A'' = Some \<lparr>address = ''A'', balance = Fin 100, createdAt = 1\<rparr>"
    "balance \<lparr>address = ''A'', balance = Fin 100, createdAt = 1\<rparr> = Fin 100"
    "whole (Fin 100)" "whole (Fin 100)" "(0 :: rat) < 100" "(100 :: rat) \<le> 100"
    "(100 :: rat) \<le> 2 ^ 53"
    by (simp_all add: findOne_def ledger_def)
  have t: "transactions ledger = [\<lparr>sender = ''M'', receiver = ''B'', amount = Fin 1, timestamp = 0\<rparr>]"
    by (simp add: ledger_def)
  from transfer_to_self[OF h, of 4] h t show ?thesis
    by simp
qed

text \<open>
  C10 as stated fails. X holds \<open>2^53 + 2\<close> and sends itself 1. The balance less 1 is no
  double and rounds to \<open>2^53\<close>, and \<open>2^53\<close> plus 1 rounds to \<open>2^53\<close> again: the answer is 200
  and the balance of X has changed. So it does with fractions: X holds 0.9 and sends
  itself 0.2, and then holds 0.8999999999999999, the double \<open>2026619832316723 / 2^51\<close>.
\<close>

theorem rounded_self_transfer_counterexample:
  "findOne (users over_brim) ''X'' =
     Some \<lparr>address = ''X'', balance = Fin 9007199254740994, createdAt = 1\<rparr> \<and>
   send over_brim (transfer ''X'' ''X'' (Fin 1)) 2 =
     (\<lparr>status = 200,
       body = Sent \<lparr>sender = ''X'', receiver = ''X'', amount = Fin 1, timestamp = 2\<rparr>\<rparr>,
      \<lparr>users = [\<lparr>address = ''X'', balance = Fin 9007199254740992, createdAt = 1\<rparr>],
       transactions = [\<lparr>sender = ''X'', receiver = ''X'', amount = Fin 1, timestamp = 2\<rparr>],
       blocks = []\<rparr>) \<and>
   users (snd (send over_brim (transfer ''X'' ''X'' (Fin 1)) 2)) \<noteq> users over_brim \<and>
   send fractional (transfer ''X'' ''X'' (Fin (3602879701896397 / 18014398509481984))) 3 =
     (\<lparr>status = 200,
       body = Sent \<lparr>sender = ''X'', receiver = ''X'',
                    amount = Fin (3602879701896397 / 18014398509481984), timestamp = 3\<rparr>\<rparr>,
      \<lparr>users = [\<lparr>address = ''X'', balance = Fin (2026619832316723 / 2251799813685248),
                  createdAt = 1\<rparr>,
                \<lparr>address = ''Y'', balance = Fin 0, createdAt = 2\<rparr>],
       transactions = [\<lparr>sender = ''X'', receiver = ''X'',
                        amount = Fin (3602879701896397 / 18014398509481984), timestamp = 3\<rparr>],
       blocks = []\<rparr>)"
  by (simp add: over_brim_def fractional_def handler_defs small_sums fraction_sums Let_def)

subsection \<open>The sign of balances and amounts\<close>

text \<open>
  No handler looks at the sign of \<^verbatim>\<open>initialBalance\<close> or of \<^verbatim>\<open>amount\<close>: the hand-written
  checks ask for a truthy value, the validators for a numeric one, and a negative number
  is both.

  C4, as the code has it, of a request served alone, with no operation of another request
  between its own. When every balance is at least zero, it is so again after a
  registration whose \<^verbatim>\<open>initialBalance\<close> is missing or at least zero, after a transfer
  request whose \<^verbatim>\<open>amount\<close> is missing or a finite number of at least zero, and after any
  mining call, whatever the request's outcome (\<open>num_of\<close> of a missing field is 0). An
  infinite amount is left out: taken from an infinite balance it leaves \<^verbatim>\<open>NaN\<close>.
\<close>

theorem balances_stay_non_negative:
  assumes "non_negative d"
  shows "(at_least_zero (num_of (req_initialBalance rb)) \<longrightarrow>
            non_negative (snd (register d rb now)) \<and> non_negative (snd (register_v d rb now))) \<and>
         (finite_at_least_zero (num_of (req_amount sb)) \<longrightarrow>
            non_negative (snd (send d sb now)) \<and> non_negative (snd (send_v d sb now))) \<and>
         non_negative (snd (mine d mb now)) \<and> non_negative (snd (mine_v d mb now))"
  using assms
  by (simp add: register_def register_v_def send_def send_v_def mine_def mine_v_def reply_def
      Let_def send_core_non_negative register_core_non_negative mine_core_non_negative)

text \<open>
  C4 at a concrete input: C registers with 7, A sends 40 to B and M mines, each on the
  database where A holds 100, B holds 0 and M holds 5.
\<close>

theorem balances_stay_non_negative_witness:
  "non_negative ledger \<and>
   at_least_zero
     (num_of (req_initialBalance \<lparr>req_address = Some ''C'', req_initialBalance = Some (Fin 7)\<rparr>)) \<and>
   non_negative
     (snd (register ledger \<lparr>req_address = Some ''C'', req_initialBalance = Some (Fin 7)\<rparr> 4)) \<and>
   non_negative
     (snd (register_v ledger \<lparr>req_address = Some ''C'', req_initialBalance = Some (Fin 7)\<rparr> 4)) \<and>
   finite_at_least_zero (num_of (req_amount (transfer ''A'' ''B'' (Fin 40)))) \<and>
   non_negative (snd (send ledger (transfer ''A'' ''B'' (Fin 40)) 4)) \<and>
   non_negative (snd (send_v ledger (transfer ''A'' ''B'' (Fin 40)) 4)) \<and>
   non_negative (snd (mine ledger \<lparr>req_minerAddress = Some ''M''\<rparr> 4)) \<and>
   non_negative (snd (mine_v ledger \<lparr>req_minerAddress = Some ''M''\<rparr> 4)) \<and>
   users (snd (register ledger \<lparr>req_address = Some ''C'', req_initialBalance = Some (Fin 7)\<rparr> 4)) =
     users ledger @ [\<lparr>address = ''C'', balance = Fin 7, createdAt = 4\<rparr>]"
proof -
  have h: "non_negative ledger"
    by (simp add: non_negative_def ledger_def)
  have n: "at_least_zero
     (num_of (req_initialBalance \<lparr>req_address = Some ''C'', req_initialBalance = Some (Fin 7)\<rparr>))"
    "finite_at_least_zero (num_of (req_amount (transfer ''A'' ''B'' (Fin 40))))"
    by (simp_all add: field_defs)
  have run: "users (snd (register ledger
       \<lparr>req_address = Some ''C'', req_initialBalance = Some (Fin 7)\<rparr> 4)) =
     users ledger @ [\<lparr>address = ''C'', balance = Fin 7, createdAt = 4\<rparr>]"
    by (simp add: ledger_def handler_defs Let_def)
  show ?thesis
    using balances_stay_non_negative
      [OF h, of "\<lparr>req_address = Some ''C'', req_initialBalance = Some (Fin 7)\<rparr>" 4
        "transfer ''A'' ''B'' (Fin 40)" "\<lparr>req_minerAddress = Some ''M''\<rparr>"]
      h n run
    by blast
qed

text \<open>
  C4 as stated fails, in two ways. The sign: on a database with no negative balance, a
  registration with \<^verbatim>\<open>initialBalance\<close> -5 is answered 201 and creates an account holding
  -5, and a transfer of -30 from A to B is answered 200 and leaves B, which held 0, with
  -30. And requests that overlap: two transfers of 60 from A, which holds 100, whose reads
  take turns are both answered 200 and leave A with -20, though both amounts are positive.
\<close>

theorem negative_balance_counterexample:
  "non_negative ledger \<and>
   register ledger \<lparr>req_address = Some ''C'', req_initialBalance = Some (Fin (- 5))\<rparr> 4 =
     (\<lparr>status = 201,
       body = Registered \<lparr>address = ''C'', balance = Fin (- 5), createdAt = 4\<rparr>\<rparr>,
      ledger\<lparr>users := users ledger @ [\<lparr>address = ''C'', balance = Fin (- 5), createdAt = 4\<rparr>]\<rparr>) \<and>
   register_v ledger \<lparr>req_address = Some ''C'', req_initialBalance = Some (Fin (- 5))\<rparr> 4 =
     (\<lparr>status = 201,
       body = Registered \<lparr>address = ''C'', balance = Fin (- 5), createdAt = 4\<rparr>\<rparr>,
      ledger\<lparr>users := users ledger @ [\<lparr>address = ''C'', balance = Fin (- 5), createdAt = 4\<rparr>]\<rparr>) \<and>
   status (fst (send ledger (transfer ''A'' ''B'' (Fin (- 30))) 4)) = 200 \<and>
   balance_of (snd (send ledger (transfer ''A'' ''B'' (Fin (- 30))) 4)) ''B'' = Some (Fin (- 30)) \<and>
   \<not> non_negative (snd (send ledger (transfer ''A'' ''B'' (Fin (- 30))) 4)) \<and>
   run [Applies 0 4, Applies 1 4, Applies 0 4, Applies 1 4, Applies 0 5, Applies 0 5,
        Applies 0 5, Applies 1 6, Applies 1 6, Applies 1 6]
     (map start [Send (transfer ''A'' ''B'' (Fin 60)), Send (transfer ''A'' ''B'' (Fin 60))],
      ledger) =
     ([Finished \<lparr>status = 200,
         body = Sent \<lparr>sender = ''A'', receiver = ''B'', amount = Fin 60, timestamp = 5\<rparr>\<rparr>,
       Finished \<lparr>status = 200,
         body = Sent \<lparr>sender = ''A'', receiver = ''B'', amount = Fin 60, timestamp = 6\<rparr>\<rparr>],
      \<lparr>users = [\<lparr>address = ''A'', balance = Fin (- 20), createdAt = 1\<rparr>,
                \<lparr>address = ''B'', balance = Fin 120, createdAt = 2\<rparr>,
                \<lparr>address = ''M'', balance = Fin 5, createdAt = 3\<rparr>],
       transactions = [\<lparr>sender = ''M'', receiver = ''B'', amount = Fin 1, timestamp = 0\<rparr>,
                       \<lparr>sender = ''A'', receiver = ''B'', amount = Fin 60, timestamp = 5\<rparr>,
                       \<lparr>sender = ''A'', receiver = ''B'', amount = Fin 60, timestamp = 6\<rparr>],
       blocks = []\<rparr>)"
  by (simp add: ledger_def non_negative_def handler_defs validator_defs register_v_def
      small_sums Let_def balance_of_def)

text \<open>
  C5, as the code has it. The handler of \<^verbatim>\<open>blockchain.js\<close> and \<^verbatim>\<open>part_001\<close> answers a
  request whose \<^verbatim>\<open>amount\<close> is missing or zero with 400, the message being that of an
  invalid body, and changes nothing. A negative amount is no error: between two existing
  accounts with non-empty addresses, when the sender's balance is not less than the
  amount, the answer is 200, the sender's balance goes up and the receiver's goes down.
  Behind the validators of \<^verbatim>\<open>part_000\<close> the same holds of zero as well; there the one
  amount that is refused, with 400 and no change, is one whose text is written with an
  exponent (\<open>plain_text\<close>), which \<^verbatim>\<open>isNumeric\<close> does not take for a number.
\<close>

theorem non_positive_amount:
  "(req_amount b = None \<or> req_amount b = Some (Fin 0) \<longrightarrow>
      send d b now = (\<lparr>status = 400, body = Message ''Invalid request body''\<rparr>, d)) \<and>
   (s \<noteq> [] \<and> r \<noteq> [] \<and> findOne (users d) s = Some su \<and> findOne (users d) r = Some ru \<and>
    a < 0 \<and> \<not> num_less (balance su) (Fin a) \<longrightarrow>
      send d (transfer s r (Fin a)) now =
        (\<lparr>status = 200,
          body = Sent \<lparr>sender = s, receiver = r, amount = Fin a, timestamp = now\<rparr>\<rparr>,
         d\<lparr>users := updateOne_inc (updateOne_inc (users d) s (Fin (- a))) r (Fin a),
           transactions := transactions d @
              [\<lparr>sender = s, receiver = r, amount = Fin a, timestamp = now\<rparr>]\<rparr>)) \<and>
   (s \<noteq> [] \<and> r \<noteq> [] \<and> findOne (users d) s = Some su \<and> findOne (users d) r = Some ru \<and>
    a \<le> 0 \<and> \<not> num_less (balance su) (Fin a) \<longrightarrow>
      send_v d (transfer s r (Fin a)) now =
        (if plain_text (Fin a)
         then (\<lparr>status = 200,
                body = Sent \<lparr>sender = s, receiver = r, amount = Fin a, timestamp = now\<rparr>\<rparr>,
               d\<lparr>users := updateOne_inc (updateOne_inc (users d) s (Fin (- a))) r (Fin a),
                 transactions := transactions d @
                    [\<lparr>sender = s, receiver = r, amount = Fin a, timestamp = now\<rparr>]\<rparr>)
         else (\<lparr>status = 400, body = Errors [''amount'']\<rparr>, d)))"
  by (auto simp: send_def send_v_def send_core_def reply_def Let_def insertOne_def
      field_defs validator_defs)

text \<open>
  C5 at a concrete input: zero from A to B is answered 400 by \<^verbatim>\<open>blockchain.js\<close>; -7
  from B to A is answered 200 by both variants.
\<close>

theorem non_positive_amount_witness:
  "req_amount (transfer ''A'' ''B'' (Fin 0)) = Some (Fin 0) \<and>
   send ledger (transfer ''A'' ''B'' (Fin 0)) 4 =
     (\<lparr>status = 400, body = Message ''Invalid request body''\<rparr>, ledger) \<and>
   ''B'' \<noteq> [] \<and> ''A'' \<noteq> [] \<and>
   findOne (users ledger) ''B'' = Some \<lparr>address = ''B'', balance = Fin 0, createdAt = 2\<rparr> \<and>
   findOne (users ledger) ''A'' = Some \<lparr>address = ''A'', balance = Fin 100, createdAt = 1\<rparr> \<and>
   (- 7 :: rat) < 0 \<and> (- 7 :: rat) \<le> 0 \<and> plain_text (Fin (- 7)) \<and>
   \<not> num_less (balance \<lparr>address = ''B'', balance = Fin 0, createdAt = 2\<rparr>) (Fin (- 7)) \<and>
   status (fst (send ledger (transfer ''B'' ''A'' (Fin (- 7))) 4)) = 200 \<and>
   status (fst (send_v ledger (transfer ''B'' ''A'' (Fin (- 7))) 4)) = 200"
proof -
  have z: "req_amount (transfer ''A'' ''B'' (Fin 0)) = Some (Fin 0)"
    by (simp add: transfer_def)
  have h: "''B'' \<noteq> []" "''A'' \<noteq> []"
    "findOne (users ledger) ''B'' = Some \<lparr>address = ''B'', balance = Fin 0, createdAt = 2\<rparr>"
    "findOne (users ledger) ''A'' = Some \<lparr>address = ''A'', balance = Fin 100, createdAt = 1\<rparr>"
    "(- 7 :: rat) < 0" "(- 7 :: rat) \<le> 0" "plain_text (Fin (- 7))"
    "\<not> num_less (balance \<lparr>address = ''B'', balance = Fin 0, createdAt = 2\<rparr>) (Fin (- 7))"
    by (simp_all add: findOne_def ledger_def)
  show ?thesis
    using non_positive_amount
      [of "transfer ''A'' ''B'' (Fin 0)" ledger 4 "''B''" "''A''"
        "\<lparr>address = ''B'', balance = Fin 0, createdAt = 2\<rparr>"
        "\<lparr>address = ''A'', balance = Fin 100, createdAt = 1\<rparr>" "- 7"]
      z h
    by simp
qed

text \<open>
  C5 as stated fails: B, holding 0, sends -5 to A; the answer is 200, not 400, and the
  state changes: B then holds 5 and A holds 95.
\<close>

theorem negative_amount_counterexample:
  "send ledger (transfer ''B'' ''A'' (Fin (- 5))) 4 =
     (\<lparr>status = 200,
       body = Sent \<lparr>sender = ''B'', receiver = ''A'', amount = Fin (- 5), timestamp = 4\<rparr>\<rparr>,
      \<lparr>users = [\<lparr>address = ''A'', balance = Fin 95, createdAt = 1\<rparr>,
                \<lparr>address = ''B'', balance = Fin 5, createdAt = 2\<rparr>,
                \<lparr>address = ''M'', balance = Fin 5, createdAt = 3\<rparr>],
       transactions = [\<lparr>sender = ''M'', receiver = ''B'', amount = Fin 1, timestamp = 0\<rparr>,
                       \<lparr>sender = ''B'', receiver = ''A'', amount = Fin (- 5), timestamp = 4\<rparr>],
       blocks = []\<rparr>)"
  by (simp add: ledger_def handler_defs small_sums Let_def)

subsection \<open>The transactions of an address\<close>

text \<open>
  C8, as the code has it. When no stored transfer has the address as its sender or as its
  receiver, whatever else is stored, the query is answered 404 with a message, not 200
  with an empty list. After a transfer from x to y that succeeded, the query for x is
  answered 200 with exactly the stored records that have x as sender or receiver, in their
  order, followed by the new record: the new transfer is there once more than before, and
  when it is the first to involve x the answer holds that one record and nothing else.
\<close>

theorem query_by_participant:
  "((\<forall>t \<in> set (transactions d). sender t \<noteq> x \<and> receiver t \<noteq> x) \<longrightarrow>
      get_transactions d x =
        (\<lparr>status = 404, body = Message ''No transactions found for this user''\<rparr>, d)) \<and>
   (status (fst (send d (transfer x y a) now)) = 200 \<longrightarrow>
      get_transactions (snd (send d (transfer x y a) now)) x =
        (\<lparr>status = 200,
          body = Transactions
                   (filter (\<lambda>t. sender t = x \<or> receiver t = x) (transactions d) @
                    [\<lparr>sender = x, receiver = y, amount = a, timestamp = now\<rparr>])\<rparr>,
         snd (send d (transfer x y a) now))) \<and>
   ((\<forall>t \<in> set (transactions d). sender t \<noteq> x \<and> receiver t \<noteq> x) \<and>
    status (fst (send d (transfer x y a) now)) = 200 \<longrightarrow>
      get_transactions (snd (send d (transfer x y a) now)) x =
        (\<lparr>status = 200,
          body = Transactions [\<lparr>sender = x, receiver = y, amount = a, timestamp = now\<rparr>]\<rparr>,
         snd (send d (transfer x y a) now)))"
proof -
  have none: "filter (\<lambda>t. sender t = x \<or> receiver t = x) (transactions d) = []"
    if "\<forall>t \<in> set (transactions d). sender t \<noteq> x \<and> receiver t \<noteq> x"
    using that by (simp add: filter_empty_conv)
  have after: "get_transactions (snd (send d (transfer x y a) now)) x =
        (\<lparr>status = 200,
          body = Transactions
                   (filter (\<lambda>t. sender t = x \<or> receiver t = x) (transactions d) @
                    [\<lparr>sender = x, receiver = y, amount = a, timestamp = now\<rparr>])\<rparr>,
         snd (send d (transfer x y a) now))"
    if ok: "status (fst (send d (transfer x y a) now)) = 200"
  proof -
    from ok have "transactions (snd (send d (transfer x y a) now)) =
         transactions d @ [\<lparr>sender = x, receiver = y, amount = a, timestamp = now\<rparr>]"
      by (auto simp: send_def transfer_def reply_def str_of_def num_of_def transactions_send_core
          split: if_splits)
    then show ?thesis
      by (simp add: get_transactions_def reply_def find_transactions_def)
  qed
  have before: "get_transactions d x =
        (\<lparr>status = 404, body = Message ''No transactions found for this user''\<rparr>, d)"
    if "\<forall>t \<in> set (transactions d). sender t \<noteq> x \<and> receiver t \<noteq> x"
    using none[OF that] by (simp add: get_transactions_def find_transactions_def reply_def)
  from before after none show ?thesis by simp
qed

text \<open>
  C8 at a concrete input: a transfer from M to B is stored and none involves A, so the
  query for A is answered 404; after A has sent 40 to B the query for A is answered with
  that one record, the query for M with the record from M to B alone, and the query for B,
  the receiver of both, with the two.
\<close>

theorem query_by_participant_witness:
  "transactions ledger = [\<lparr>sender = ''M'', receiver = ''B'', amount = Fin 1, timestamp = 0\<rparr>] \<and>
   sender \<lparr>sender = ''M'', receiver = ''B'', amount = Fin 1, timestamp = 0\<rparr> \<noteq> ''A'' \<and>
   receiver \<lparr>sender = ''M'', receiver = ''B'', amount = Fin 1, timestamp = 0\<rparr> \<noteq> ''A'' \<and>
   get_transactions ledger ''A'' =
     (\<lparr>status = 404, body = Message ''No transactions found for this user''\<rparr>, ledger) \<and>
   status (fst (send ledger (transfer ''A'' ''B'' (Fin 40)) 4)) = 200 \<and>
   get_transactions (snd (send ledger (transfer ''A'' ''B'' (Fin 40)) 4)) ''A'' =
     (\<lparr>status = 200,
       body = Transactions
                [\<lparr>sender = ''A'', receiver = ''B'', amount = Fin 40, timestamp = 4\<rparr>]\<rparr>,
      snd (send ledger (transfer ''A'' ''B'' (Fin 40)) 4)) \<and>
   get_transactions (snd (send ledger (transfer ''A'' ''B'' (Fin 40)) 4)) ''M'' =
     (\<lparr>status = 200,
       body = Transactions
                [\<lparr>sender = ''M'', receiver = ''B'', amount = Fin 1, timestamp = 0\<rparr>]\<rparr>,
      snd (send ledger (transfer ''A'' ''B'' (Fin 40)) 4)) \<and>
   get_transactions (snd (send ledger (transfer ''A'' ''B'' (Fin 40)) 4)) ''B'' =
     (\<lparr>status = 200,
       body = Transactions
                [\<lparr>sender = ''M'', receiver = ''B'', amount = Fin 1, timestamp = 0\<rparr>,
                 \<lparr>sender = ''A'', receiver = ''B'', amount = Fin 40, timestamp = 4\<rparr>]\<rparr>,
      snd (send ledger (transfer ''A'' ''B'' (Fin 40)) 4))"
proof -
  have h: "\<forall>t \<in> set (transactions ledger). sender t \<noteq> ''A'' \<and> receiver t \<noteq> ''A''"
    "transactions ledger = [\<lparr>sender = ''M'', receiver = ''B'', amount = Fin 1, timestamp = 0\<rparr>]"
    by (simp_all add: ledger_def)
  have f: "filter (\<lambda>t. sender t = ''A'' \<or> receiver t = ''A'') (transactions ledger) = []"
    by (simp add: ledger_def)
  have ok: "status (fst (send ledger (transfer ''A'' ''B'' (Fin 40)) 4)) = 200"
    by (simp add: ledger_def handler_defs Let_def)
  have c: "get_transactions (snd (send ledger (transfer ''A'' ''B'' (Fin 40)) 4)) ''M'' =
     (\<lparr>status = 200,
       body = Transactions
                [\<lparr>sender = ''M'', receiver = ''B'', amount = Fin 1, timestamp = 0\<rparr>]\<rparr>,
      snd (send ledger (transfer ''A'' ''B'' (Fin 40)) 4))"
    "get_transactions (snd (send ledger (transfer ''A'' ''B'' (Fin 40)) 4)) ''B'' =
     (\<lparr>status = 200,
       body = Transactions
                [\<lparr>sender = ''M'', receiver = ''B'', amount = Fin 1, timestamp = 0\<rparr>,
                 \<lparr>sender = ''A'', receiver = ''B'', amount = Fin 40, timestamp = 4\<rparr>]\<rparr>,
      snd (send ledger (transfer ''A'' ''B'' (Fin 40)) 4))"
    by (simp_all add: ledger_def handler_defs Let_def)
  show ?thesis
    using query_by_participant[of ledger "''A''" "''B''" "Fin 40" 4] h f ok c
    by simp
qed

text \<open>
  C8 as stated fails: the one stored transfer goes from M to B, none involves A, and the
  query for A is answered 404, an error, where the claim has a success with an empty
  sequence.
\<close>

theorem empty_query_counterexample:
  "transactions ledger = [\<lparr>sender = ''M'', receiver = ''B'', amount = Fin 1, timestamp = 0\<rparr>] \<and>
   get_transactions ledger ''A'' =
     (\<lparr>status = 404, body = Message ''No transactions found for this user''\<rparr>, ledger)"
  by (simp add: ledger_def get_transactions_def find_transactions_def reply_def)

subsection \<open>Registration without an initial balance\<close>

text \<open>
  The comment on line 56 of \<^verbatim>\<open>blockchain.js\<close> says that the balance is 0 when none is
  provided, and \<^verbatim>\<open>part_000\<close> does that. In \<^verbatim>\<open>blockchain.js\<close> the check on line 43 comes
  first and refuses the request.
\<close>

lemma register_v_without_initialBalance:
  "a \<noteq> [] \<Longrightarrow> findOne (users d) a = None \<Longrightarrow>
   register_v d \<lparr>req_address = Some a, req_initialBalance = None\<rparr> now =
     (\<lparr>status = 201, body = Registered \<lparr>address = a, balance = Fin 0, createdAt = now\<rparr>\<rparr>,
      d\<lparr>users := users d @ [\<lparr>address = a, balance = Fin 0, createdAt = now\<rparr>]\<rparr>)"
  by (simp add: register_v_def register_core_def reply_def Let_def insertOne_def
      validator_defs field_defs)

lemma registered_address_non_empty:
  "status (fst (register d b now)) = 201 \<or> status (fst (register_v d b now)) = 201 \<Longrightarrow>
   req_address b \<noteq> None \<and> req_address b \<noteq> Some []"
  by (auto simp: register_def register_v_def register_core_def reply_def Let_def
      validator_defs field_defs split: option.splits if_splits)

text \<open>
  C9 on \<^verbatim>\<open>blockchain.js\<close>: a registration request without \<^verbatim>\<open>initialBalance\<close> is answered
  400, whatever the address and the database, and no account is created.
\<close>

theorem register_without_initialBalance:
  "register d \<lparr>req_address = Some a, req_initialBalance = None\<rparr> now =
     (\<lparr>status = 400, body = Message ''Address and initial balance are required''\<rparr>, d)"
  by (simp add: register_def reply_def not_num_def)

subsection \<open>Requests that overlap\<close>

lemma budget_nonneg: "0 \<le> budget t"
  by (cases t) (simp_all add: mag_nonneg)

lemma step_addresses: "map address (users (snd (step now t d))) = map address (users d)"
  by (cases t) (auto simp: addresses_updateOne_inc Let_def split: option.splits)

lemma step_known:
  "known (map address (users d)) t \<Longrightarrow> known (map address (users d)) (fst (step now t d))"
  by (cases t)
    (auto simp: Let_def findOne_None_iff dest: findOne_Some_address split: option.splits)

lemma in_range_mono: "in_range d k \<Longrightarrow> j \<le> k \<Longrightarrow> in_range d j"
  unfolding in_range_def by (rule range_mono)

lemma debit_exact:
  assumes "in_range d (2 * mag a + k)" and "whole a" and "0 \<le> k"
    and "s \<in> set (map address (users d))"
  shows "in_range (d\<lparr>users := updateOne_inc (users d) s (num_neg a)\<rparr>) (mag a + k) \<and>
         total_balance (d\<lparr>users := updateOne_inc (users d) s (num_neg a)\<rparr>) + val a =
           total_balance d"
proof -
  have h: "list_all (\<lambda>u. whole (balance u) \<and>
              mag (balance u) + (mag (num_neg a) + (mag a + k)) \<le> 2 ^ 53) (users d)"
    using assms(1) by (simp add: in_range_def mag_neg algebra_simps)
  have k1: "0 \<le> mag a + k" using assms(3) mag_nonneg[of a] by simp
  have f: "findOne (users d) s \<noteq> None" using assms(4) by (simp add: findOne_None_iff)
  from range_updateOne_inc[OF h whole_neg[OF assms(2)] k1, of s]
    sum_updateOne_inc[OF h whole_neg[OF assms(2)] k1 f]
  show ?thesis by (simp add: in_range_def total_balance_def val_neg)
qed

lemma credit_exact:
  assumes "in_range d (mag a + k)" and "whole a" and "0 \<le> k"
    and "r \<in> set (map address (users d))"
  shows "in_range (d\<lparr>users := updateOne_inc (users d) r a\<rparr>) k \<and>
         total_balance (d\<lparr>users := updateOne_inc (users d) r a\<rparr>) = total_balance d + val a"
proof -
  have h: "list_all (\<lambda>u. whole (balance u) \<and> mag (balance u) + (mag a + k) \<le> 2 ^ 53) (users d)"
    using assms(1) by (simp add: in_range_def)
  have f: "findOne (users d) r \<noteq> None" using assms(4) by (simp add: findOne_None_iff)
  from range_updateOne_inc[OF h assms(2,3), of r] sum_updateOne_inc[OF h assms(2,3) f]
  show ?thesis by (simp add: in_range_def total_balance_def)
qed

text \<open>
  One step of a task that knows its accounts, on balances with room for what it and the
  other tasks (\<open>k\<close>) may still move.
\<close>

lemma step_exact:
  assumes "known (map address (users d)) t" and "in_range d (budget t + k)" and "0 \<le> k"
  shows "in_range (snd (step now t d)) (budget (fst (step now t d)) + k) \<and>
         total_balance (snd (step now t d)) + in_transit (fst (step now t d)) =
           total_balance d + in_transit t"
proof (cases t)
  case (Find_sender s r a)
  with assms show ?thesis by simp
next
  case (Find_receiver s r a su)
  have "in_range d k" using assms(2,3) budget_nonneg[of t] by (auto intro: in_range_mono)
  with Find_receiver assms show ?thesis by (auto split: option.splits)
next
  case (Debit s r a)
  with assms debit_exact[of d a k s] show ?thesis by simp
next
  case (Credit s r a)
  with assms credit_exact[of d a k r] show ?thesis by simp
next
  case (Insert_transaction tx)
  with assms show ?thesis by (simp add: in_range_def total_balance_def)
next
  case (Find_miner m)
  have "in_range d k" using assms(2,3) budget_nonneg[of t] by (auto intro: in_range_mono)
  with Find_miner assms show ?thesis by (auto split: option.splits)
next
  case (Reward m)
  have w: "whole (Fin 10)" by simp
  from Reward assms credit_exact[of d "Fin 10" k m, OF _ w] show ?thesis by simp
next
  case (Insert_block blk)
  with assms show ?thesis by (simp add: in_range_def total_balance_def)
next
  case (Finished res)
  with assms show ?thesis by simp
qed

lemma sum_list_map_update:
  "i < length ts \<Longrightarrow>
   sum_list (map f (ts[i := t])) = sum_list (map f ts) - f (ts ! i) + (f t :: rat)"
  by (induction ts arbitrary: i) (auto split: nat.splits)

lemma others_nonneg:
  "i < length ts \<Longrightarrow> 0 \<le> sum_list (map budget ts) - budget (ts ! i)"
proof (induction ts arbitrary: i)
  case Nil
  then show ?case by simp
next
  case (Cons t ts)
  have s: "0 \<le> sum_list (map budget ts)"
    by (induction ts) (simp_all add: budget_nonneg)
  show ?case
  proof (cases i)
    case 0
    with s show ?thesis by simp
  next
    case (Suc j)
    with Cons.prems Cons.IH[of j] budget_nonneg[of t] show ?thesis by simp
  qed
qed

text \<open>
  The invariant of every schedule in which no call throws: the tasks keep knowing their
  accounts, the balances keep room for what the tasks may still move, and the total balance
  plus what the tasks hold stays what it was.
\<close>

lemma run_invariant:
  "list_all applies sched \<Longrightarrow> list_all (known (map address (users d))) ts \<Longrightarrow>
   in_range d (sum_list (map budget ts)) \<Longrightarrow>
   total_balance (snd (run sched (ts, d))) + sum_list (map in_transit (fst (run sched (ts, d)))) =
   total_balance d + sum_list (map in_transit ts)"
proof (induction sched arbitrary: ts d)
  case Nil
  then show ?case by simp
next
  case (Cons ev sched)
  from Cons.prems(1) obtain i now where ev: "ev = Applies i now" and rest: "list_all applies sched"
    by (cases ev) simp_all
  show ?case
  proof (cases "i < length ts")
    case False
    with Cons.IH[OF rest Cons.prems(2,3)] ev show ?thesis by simp
  next
    case True
    let ?t = "fst (step now (ts ! i) d)" and ?d = "snd (step now (ts ! i) d)"
    let ?k = "sum_list (map budget ts) - budget (ts ! i)"
    have r: "run (ev # sched) (ts, d) = run sched (ts[i := ?t], ?d)"
      using True ev by (simp add: case_prod_beta)
    have k: "known (map address (users d)) (ts ! i)"
      using Cons.prems(2) True by (simp add: list_all_length)
    have room: "in_range d (budget (ts ! i) + ?k)" using Cons.prems(3) by simp
    from step_exact[OF k room others_nonneg[OF True], of now]
    have range': "in_range ?d (budget ?t + ?k)"
      and total': "total_balance ?d + in_transit ?t = total_balance d + in_transit (ts ! i)"
      by simp_all
    have known': "list_all (known (map address (users ?d))) (ts[i := ?t])"
      using Cons.prems(2) step_known[OF k, of now] True
      by (auto simp: step_addresses list_all_length nth_list_update)
    have "sum_list (map budget (ts[i := ?t])) = budget ?t + ?k"
      using True by (simp add: sum_list_map_update)
    with range' have range'': "in_range ?d (sum_list (map budget (ts[i := ?t])))" by simp
    from Cons.IH[OF rest known' range''] total' True
    show ?thesis unfolding r by (simp add: sum_list_map_update)
  qed
qed

lemma in_transit_finished:
  "list_all finished ts \<Longrightarrow>
   sum_list (map in_transit ts) = - 10 * of_nat (length (filter rewarded ts))"
proof (induction ts)
  case Nil
  then show ?case by simp
next
  case (Cons t ts)
  then show ?case by (cases t) (auto split: json.splits)
qed

lemma start_known: "whole_request q \<Longrightarrow> known addrs (start q)"
  by (cases q) auto

lemma start_in_transit: "in_transit (start q) = 0"
  by (cases q) auto

lemma start_budget: "budget (start q) \<le> room q"
  by (cases q) (auto simp: mag_nonneg)

lemma run_total:
  assumes "list_all applies sched" and "list_all whole_request reqs"
    and "in_range d (sum_list (map room reqs))"
    and "list_all finished (fst (run sched (map start reqs, d)))"
  shows "total_balance (snd (run sched (map start reqs, d))) =
           total_balance d +
           10 * of_nat (length (filter rewarded (fst (run sched (map start reqs, d)))))"
proof -
  have k: "list_all (known (map address (users d))) (map start reqs)"
    using assms(2) by (induction reqs) (simp_all add: start_known)
  have z: "sum_list (map in_transit (map start reqs)) = 0"
    by (induction reqs) (simp_all add: start_in_transit)
  have "sum_list (map budget (map start reqs)) \<le> sum_list (map room reqs)"
    by (induction reqs) (simp_all add: add_mono start_budget)
  with assms(3) have r: "in_range d (sum_list (map budget (map start reqs)))"
    by (rule in_range_mono)
  from run_invariant[OF assms(1) k r] in_transit_finished[OF assms(4)] z show ?thesis
    by simp
qed

text \<open>
  A request whose operations are applied one after the other, nothing of another request
  in between and no call throwing, is the handler served alone, on the database of that
  moment; the other requests in flight stay where they are. The clock the handler sees is
  the one of the stretch that builds the document: the fourth of a transfer, the second of
  a mining call.
\<close>

lemma run_alone_send:
  assumes "i < length ts" and "ts ! i = start (Send b)"
  shows "run [Applies i na, Applies i nb, Applies i nc, Applies i nd, Applies i ne] (ts, d) =
           (ts[i := Finished (fst (send d b nd))], snd (send d b nd))"
  using assms
  by (auto simp: send_def send_core_def reply_def Let_def insertOne_def split: option.splits)

lemma run_alone_mine:
  assumes "i < length ts" and "ts ! i = start (Mine b)"
  shows "run [Applies i na, Applies i nb, Applies i nc] (ts, d) =
           (ts[i := Finished (fst (mine d b nb))], snd (mine d b nb))"
  using assms
  by (auto simp: mine_def mine_core_def reply_def Let_def insertOne_def split: option.splits)

lemma run_thrown_credit:
  assumes "i < length ts" and "ts ! i = Find_sender s r a"
    and "findOne (users d) s = Some su" and "findOne (users d) r = Some ru"
    and "\<not> num_less (balance su) a"
  shows "run [Applies i na, Applies i nb, Applies i nc, Throws i] (ts, d) =
           (ts[i := Finished \<lparr>status = 500, body = Message ''Internal Server Error''\<rparr>],
            d\<lparr>users := updateOne_inc (users d) s (num_neg a)\<rparr>)"
  using assms by simp

text \<open>
  C3, as the code has it. The handlers take no lock and open no database transaction; what
  is atomic is each single database operation.
  \<^item> A transfer whose five operations, or a mining call whose three operations, are
    applied with no operation of another request in between and without a call that
    throws, is the handler served alone on the database of that moment, whatever other
    requests are in flight: response and database are those of \<open>send\<close> and \<open>mine\<close>, so that
    all of its updates and its record are there, or none.
  \<^item> A call that throws ends the handler in its \<^verbatim>\<open>catch\<close> branch, which undoes nothing:
    when the credit of a transfer throws, the answer is 500 and the debit stays.
  \<^item> Under every schedule of any number of transfers and mining calls in which no call
    throws, no increment is lost, as long as the sums are exact: with whole balances and
    amounts and room below \<open>2^53\<close> for what the requests move, once all of them have
    answered, the total balance is the one before plus 10 for each mining call answered
    with its block.
\<close>

theorem requests_in_flight:
  "(i < length ts \<and> ts ! i = start (Send b) \<longrightarrow>
      run [Applies i na, Applies i nb, Applies i nc, Applies i nd, Applies i ne] (ts, d) =
        (ts[i := Finished (fst (send d b nd))], snd (send d b nd))) \<and>
   (j < length tm \<and> tm ! j = start (Mine mb) \<longrightarrow>
      run [Applies j na, Applies j nb, Applies j nc] (tm, d) =
        (tm[j := Finished (fst (mine d mb nb))], snd (mine d mb nb))) \<and>
   (k < length tf \<and> tf ! k = Find_sender s r a \<and> findOne (users d) s = Some su \<and>
    findOne (users d) r = Some ru \<and> \<not> num_less (balance su) a \<longrightarrow>
      run [Applies k na, Applies k nb, Applies k nc, Throws k] (tf, d) =
        (tf[k := Finished \<lparr>status = 500, body = Message ''Internal Server Error''\<rparr>],
         d\<lparr>users := updateOne_inc (users d) s (num_neg a)\<rparr>)) \<and>
   (list_all applies sched \<and> list_all whole_request reqs \<and>
    in_range d (sum_list (map room reqs)) \<and>
    list_all finished (fst (run sched (map start reqs, d))) \<longrightarrow>
      total_balance (snd (run sched (map start reqs, d))) =
        total_balance d +
        10 * of_nat (length (filter rewarded (fst (run sched (map start reqs, d))))))"
proof (intro conjI impI)
  assume "i < length ts \<and> ts ! i = start (Send b)"
  then show "run [Applies i na, Applies i nb, Applies i nc, Applies i nd, Applies i ne] (ts, d) =
        (ts[i := Finished (fst (send d b nd))], snd (send d b nd))"
    using run_alone_send by blast
next
  assume "j < length tm \<and> tm ! j = start (Mine mb)"
  then show "run [Applies j na, Applies j nb, Applies j nc] (tm, d) =
        (tm[j := Finished (fst (mine d mb nb))], snd (mine d mb nb))"
    using run_alone_mine by blast
next
  assume "k < length tf \<and> tf ! k = Find_sender s r a \<and> findOne (users d) s = Some su \<and>
    findOne (users d) r = Some ru \<and> \<not> num_less (balance su) a"
  then show "run [Applies k na, Applies k nb, Applies k nc, Throws k] (tf, d) =
        (tf[k := Finished \<lparr>status = 500, body = Message ''Internal Server Error''\<rparr>],
         d\<lparr>users := updateOne_inc (users d) s (num_neg a)\<rparr>)"
    using run_thrown_credit by blast
next
  assume "list_all applies sched \<and> list_all whole_request reqs \<and>
    in_range d (sum_list (map room reqs)) \<and>
    list_all finished (fst (run sched (map start reqs, d)))"
  then show "total_balance (snd (run sched (map start reqs, d))) =
        total_balance d +
        10 * of_nat (length (filter rewarded (fst (run sched (map start reqs, d)))))"
    using run_total by blast
qed

text \<open>
  C3 at a concrete input: a transfer of 40 from A to B run alone beside a waiting mining
  call, a mining call by M run alone, a transfer whose credit throws, and two transfers of
  100 from A, which holds 100, with a mining call by M, their operations taking turns: all
  three are answered, and the total goes from 105 to 115.
\<close>

theorem requests_in_flight_witness:
  "(1 :: nat) < length [start (Mine \<lparr>req_minerAddress = Some ''M''\<rparr>),
                        start (Send (transfer ''A'' ''B'' (Fin 40)))] \<and>
   run [Applies 1 1, Applies 1 2, Applies 1 3, Applies 1 4, Applies 1 5]
     ([start (Mine \<lparr>req_minerAddress = Some ''M''\<rparr>),
       start (Send (transfer ''A'' ''B'' (Fin 40)))], ledger) =
     ([Find_miner ''M'',
       Finished \<lparr>status = 200,
         body = Sent \<lparr>sender = ''A'', receiver = ''B'', amount = Fin 40, timestamp = 4\<rparr>\<rparr>],
      snd (send ledger (transfer ''A'' ''B'' (Fin 40)) 4)) \<and>
   run [Applies 0 1, Applies 0 2, Applies 0 3]
     ([start (Mine \<lparr>req_minerAddress = Some ''M''\<rparr>)], ledger) =
     ([Finished \<lparr>status = 200,
         body = Mined \<lparr>miner = ''M'', reward = Fin 10, timestamp = 2\<rparr>\<rparr>],
      snd (mine ledger \<lparr>req_minerAddress = Some ''M''\<rparr> 2)) \<and>
   findOne (users ledger) ''A'' = Some \<lparr>address = ''A'', balance = Fin 100, createdAt = 1\<rparr> \<and>
   findOne (users ledger) ''B'' = Some \<lparr>address = ''B'', balance = Fin 0, createdAt = 2\<rparr> \<and>
   \<not> num_less (balance \<lparr>address = ''A'', balance = Fin 100, createdAt = 1\<rparr>) (Fin 40) \<and>
   run [Applies 0 1, Applies 0 2, Applies 0 3, Throws 0]
     ([Find_sender ''A'' ''B'' (Fin 40)], ledger) =
     ([Finished \<lparr>status = 500, body = Message ''Internal Server Error''\<rparr>],
      ledger\<lparr>users := [\<lparr>address = ''A'', balance = Fin 60, createdAt = 1\<rparr>,
                        \<lparr>address = ''B'', balance = Fin 0, createdAt = 2\<rparr>,
                        \<lparr>address = ''M'', balance = Fin 5, createdAt = 3\<rparr>]\<rparr>) \<and>
   list_all applies
     [Applies 0 4, Applies 1 4, Applies 2 4, Applies 0 4, Applies 1 4, Applies 2 5,
      Applies 0 5, Applies 0 5, Applies 0 5, Applies 2 5, Applies 1 6, Applies 1 6,
      Applies 1 6] \<and>
   list_all whole_request
     [Send (transfer ''A'' ''B'' (Fin 100)), Send (transfer ''A'' ''B'' (Fin 100)),
      Mine \<lparr>req_minerAddress = Some ''M''\<rparr>] \<and>
   in_range ledger
     (sum_list (map room
        [Send (transfer ''A'' ''B'' (Fin 100)), Send (transfer ''A'' ''B'' (Fin 100)),
         Mine \<lparr>req_minerAddress = Some ''M''\<rparr>])) \<and>
   list_all finished
     (fst (run [Applies 0 4, Applies 1 4, Applies 2 4, Applies 0 4, Applies 1 4, Applies 2 5,
                Applies 0 5, Applies 0 5, Applies 0 5, Applies 2 5, Applies 1 6, Applies 1 6,
                Applies 1 6]
            (map start [Send (transfer ''A'' ''B'' (Fin 100)),
                        Send (transfer ''A'' ''B'' (Fin 100)),
                        Mine \<lparr>req_minerAddress = Some ''M''\<rparr>], ledger))) \<and>
   total_balance
     (snd (run [Applies 0 4, Applies 1 4, Applies 2 4, Applies 0 4, Applies 1 4, Applies 2 5,
                Applies 0 5, Applies 0 5, Applies 0 5, Applies 2 5, Applies 1 6, Applies 1 6,
                Applies 1 6]
            (map start [Send (transfer ''A'' ''B'' (Fin 100)),
                        Send (transfer ''A'' ''B'' (Fin 100)),
                        Mine \<lparr>req_minerAddress = Some ''M''\<rparr>], ledger))) = 115"
proof -
  let ?sched = "[Applies 0 4, Applies 1 4, Applies 2 4, Applies 0 4, Applies 1 4, Applies 2 5,
                Applies 0 5, Applies 0 5, Applies 0 5, Applies 2 5, Applies 1 6, Applies 1 6,
                Applies 1 6]"
  let ?reqs = "[Send (transfer ''A'' ''B'' (Fin 100)), Send (transfer ''A'' ''B'' (Fin 100)),
                Mine \<lparr>req_minerAddress = Some ''M''\<rparr>]"
  let ?ts = "[start (Mine \<lparr>req_minerAddress = Some ''M''\<rparr>),
              start (Send (transfer ''A'' ''B'' (Fin 40)))]"
  have i: "(1 :: nat) < length ?ts \<and> ?ts ! 1 = start (Send (transfer ''A'' ''B'' (Fin 40)))"
    by simp
  have j: "(0 :: nat) < length [start (Mine \<lparr>req_minerAddress = Some ''M''\<rparr>)] \<and>
           [start (Mine \<lparr>req_minerAddress = Some ''M''\<rparr>)] ! 0 =
             start (Mine \<lparr>req_minerAddress = Some ''M''\<rparr>)"
    by simp
  have k: "(0 :: nat) < length [Find_sender ''A'' ''B'' (Fin 40)] \<and>
           [Find_sender ''A'' ''B'' (Fin 40)] ! 0 = Find_sender ''A'' ''B'' (Fin 40) \<and>
           findOne (users ledger) ''A'' =
             Some \<lparr>address = ''A'', balance = Fin 100, createdAt = 1\<rparr> \<and>
           findOne (users ledger) ''B'' = Some \<lparr>address = ''B'', balance = Fin 0, createdAt = 2\<rparr> \<and>
           \<not> num_less (balance \<lparr>address = ''A'', balance = Fin 100, createdAt = 1\<rparr>) (Fin 40)"
    by (simp add: ledger_def findOne_def)
  have f: "fst (run ?sched (map start ?reqs, ledger)) =
     [Finished \<lparr>status = 200,
        body = Sent \<lparr>sender = ''A'', receiver = ''B'', amount = Fin 100, timestamp = 5\<rparr>\<rparr>,
      Finished \<lparr>status = 200,
        body = Sent \<lparr>sender = ''A'', receiver = ''B'', amount = Fin 100, timestamp = 6\<rparr>\<rparr>,
      Finished \<lparr>status = 200, body = Mined \<lparr>miner = ''M'', reward = Fin 10, timestamp = 5\<rparr>\<rparr>]"
    by (simp add: ledger_def field_defs findOne_def insertOne_def small_sums Let_def)
  have h: "list_all applies ?sched \<and> list_all whole_request ?reqs \<and>
           in_range ledger (sum_list (map room ?reqs))"
    by (simp add: in_range_def ledger_def field_defs)
  have t: "total_balance ledger = 105"
    by (simp add: ledger_def total_balance_def)
  have s: "fst (send ledger (transfer ''A'' ''B'' (Fin 40)) 4) =
             \<lparr>status = 200,
               body = Sent \<lparr>sender = ''A'', receiver = ''B'', amount = Fin 40, timestamp = 4\<rparr>\<rparr>"
    "fst (mine ledger \<lparr>req_minerAddress = Some ''M''\<rparr> 2) =
       \<lparr>status = 200, body = Mined \<lparr>miner = ''M'', reward = Fin 10, timestamp = 2\<rparr>\<rparr>"
    "updateOne_inc (users ledger) ''A'' (num_neg (Fin 40)) =
       [\<lparr>address = ''A'', balance = Fin 60, createdAt = 1\<rparr>,
        \<lparr>address = ''B'', balance = Fin 0, createdAt = 2\<rparr>,
        \<lparr>address = ''M'', balance = Fin 5, createdAt = 3\<rparr>]"
    "start (Mine \<lparr>req_minerAddress = Some ''M''\<rparr>) = Find_miner ''M''"
    by (simp_all add: ledger_def handler_defs small_sums Let_def)
  show ?thesis
    using requests_in_flight
      [where i = 1 and ts = ?ts and b = "transfer ''A'' ''B'' (Fin 40)"
        and na = 1 and nb = 2 and nc = 3 and nd = 4 and ne = 5 and d = ledger
        and j = 0 and tm = "[start (Mine \<lparr>req_minerAddress = Some ''M''\<rparr>)]"
        and mb = "\<lparr>req_minerAddress = Some ''M''\<rparr>"
        and k = 0 and tf = "[Find_sender ''A'' ''B'' (Fin 40)]"
        and s = "''A''" and r = "''B''" and a = "Fin 40"
        and su = "\<lparr>address = ''A'', balance = Fin 100, createdAt = 1\<rparr>"
        and ru = "\<lparr>address = ''B'', balance = Fin 0, createdAt = 2\<rparr>"
        and sched = ?sched and reqs = ?reqs]
      i j k f h t s
    by simp
qed

text \<open>
  C3 as stated fails. A holds 100 and two requests ask to send 100 from A to B. When their
  reads take turns, both find A with 100 and both pass the check: after four steps both
  wait for their debit, the database still untouched. Run to the end, both are answered
  200 and A holds -100. Served one after the other, in either order, the second request is
  answered 400 and A holds 0: the overlapped outcome is that of no serial order. And the
  steps of one transfer do not show together: after its debit, A holds 0, B still holds 0
  and no record is stored; if its credit then throws, the answer is 500 and that state
  stays.
\<close>

theorem double_spend_counterexample:
  "run [Applies 0 4, Applies 1 4, Applies 0 4, Applies 1 4]
     (map start [Send (transfer ''A'' ''B'' (Fin 100)), Send (transfer ''A'' ''B'' (Fin 100))],
      ledger) =
     ([Debit ''A'' ''B'' (Fin 100), Debit ''A'' ''B'' (Fin 100)], ledger) \<and>
   run [Applies 0 4, Applies 1 4, Applies 0 4, Applies 1 4, Applies 0 5, Applies 0 5,
        Applies 0 5, Applies 1 6, Applies 1 6, Applies 1 6]
     (map start [Send (transfer ''A'' ''B'' (Fin 100)), Send (transfer ''A'' ''B'' (Fin 100))],
      ledger) =
     ([Finished \<lparr>status = 200,
         body = Sent \<lparr>sender = ''A'', receiver = ''B'', amount = Fin 100, timestamp = 5\<rparr>\<rparr>,
       Finished \<lparr>status = 200,
         body = Sent \<lparr>sender = ''A'', receiver = ''B'', amount = Fin 100, timestamp = 6\<rparr>\<rparr>],
      \<lparr>users = [\<lparr>address = ''A'', balance = Fin (- 100), createdAt = 1\<rparr>,
                \<lparr>address = ''B'', balance = Fin 200, createdAt = 2\<rparr>,
                \<lparr>address = ''M'', balance = Fin 5, createdAt = 3\<rparr>],
       transactions = [\<lparr>sender = ''M'', receiver = ''B'', amount = Fin 1, timestamp = 0\<rparr>,
                       \<lparr>sender = ''A'', receiver = ''B'', amount = Fin 100, timestamp = 5\<rparr>,
                       \<lparr>sender = ''A'', receiver = ''B'', amount = Fin 100, timestamp = 6\<rparr>],
       blocks = []\<rparr>) \<and>
   serve_all send ledger
     [(transfer ''A'' ''B'' (Fin 100), 5), (transfer ''A'' ''B'' (Fin 100), 6)] =
     ([\<lparr>status = 200,
        body = Sent \<lparr>sender = ''A'', receiver = ''B'', amount = Fin 100, timestamp = 5\<rparr>\<rparr>,
       \<lparr>status = 400, body = Message ''Insufficient balance''\<rparr>],
      \<lparr>users = [\<lparr>address = ''A'', balance = Fin 0, createdAt = 1\<rparr>,
                \<lparr>address = ''B'', balance = Fin 100, createdAt = 2\<rparr>,
                \<lparr>address = ''M'', balance = Fin 5, createdAt = 3\<rparr>],
       transactions = [\<lparr>sender = ''M'', receiver = ''B'', amount = Fin 1, timestamp = 0\<rparr>,
                       \<lparr>sender = ''A'', receiver = ''B'', amount = Fin 100, timestamp = 5\<rparr>],
       blocks = []\<rparr>) \<and>
   run [Applies 0 4, Applies 0 4, Applies 0 4]
     (map start [Send (transfer ''A'' ''B'' (Fin 100))], ledger) =
     ([Credit ''A'' ''B'' (Fin 100)],
      \<lparr>users = [\<lparr>address = ''A'', balance = Fin 0, createdAt = 1\<rparr>,
                \<lparr>address = ''B'', balance = Fin 0, createdAt = 2\<rparr>,
                \<lparr>address = ''M'', balance = Fin 5, createdAt = 3\<rparr>],
       transactions = [\<lparr>sender = ''M'', receiver = ''B'', amount = Fin 1, timestamp = 0\<rparr>],
       blocks = []\<rparr>) \<and>
   run [Applies 0 4, Applies 0 4, Applies 0 4, Throws 0]
     (map start [Send (transfer ''A'' ''B'' (Fin 100))], ledger) =
     ([Finished \<lparr>status = 500, body = Message ''Internal Server Error''\<rparr>],
      \<lparr>users = [\<lparr>address = ''A'', balance = Fin 0, createdAt = 1\<rparr>,
                \<lparr>address = ''B'', balance = Fin 0, createdAt = 2\<rparr>,
                \<lparr>address = ''M'', balance = Fin 5, createdAt = 3\<rparr>],
       transactions = [\<lparr>sender = ''M'', receiver = ''B'', amount = Fin 1, timestamp = 0\<rparr>],
       blocks = []\<rparr>)"
  by (simp add: ledger_def handler_defs small_sums Let_def)

end
